theory Spec2Isabelle
  imports Main "HOL-Library.Word"
begin

section \<open>Values\<close>

text \<open>
  The two programs of the repository (the migration script, lines 1-99 of the source file,
  and the HTTP server, lines 100-555) exchange JSON documents with the local files, the
  remote store and the HTTP client, and compute on JavaScript values in between.

  A \<open>json\<close> is a parsed JSON document. A \<open>js\<close> is a JavaScript value at run time: it
  can be \<open>undefined\<close>, and an object can hold a property whose value is \<open>undefined\<close>.
  Objects are association lists in property order. Strings are lists of bytes, read as
  the UTF-8 encoding of the JavaScript string. Numbers are restricted to the integers
  from \<open>-2^53\<close> to \<open>2^53 - 1\<close>, held in 54 bits and read by \<open>sint\<close>: each of them is a
  JavaScript number, JSON writes and reads it exactly, and no definition below does
  arithmetic on numbers. (The only number the programs compute is the comment count
  of a course, see \<open>newCourse\<close>.)
\<close>

type_synonym number = "54 word"

datatype json =
    JNull
  | JBool bool
  | JNum number
  | JStr string
  | JArr "json list"
  | JObj "(string \<times> json) list"

datatype js =
    VUndefined
  | VNull
  | VBool bool
  | VNum number
  | VStr string
  | VArr "js list"
  | VObj "(string \<times> js) list"

text \<open>\<open>JSON.parse\<close> on a well-formed text: the value of the document.\<close>

fun of_json :: "json \<Rightarrow> js"
  and of_json_elems :: "json list \<Rightarrow> js list"
  and of_json_props :: "(string \<times> json) list \<Rightarrow> (string \<times> js) list" where
  "of_json JNull = VNull"
| "of_json (JBool b) = VBool b"
| "of_json (JNum n) = VNum n"
| "of_json (JStr s) = VStr s"
| "of_json (JArr xs) = VArr (of_json_elems xs)"
| "of_json (JObj kvs) = VObj (of_json_props kvs)"
| "of_json_elems [] = []"
| "of_json_elems (x # xs) = of_json x # of_json_elems xs"
| "of_json_props [] = []"
| "of_json_props ((k, v) # kvs) = (k, of_json v) # of_json_props kvs"

text \<open>
  \<open>JSON.stringify\<close> on a value other than \<open>undefined\<close>: a property whose value is
  \<open>undefined\<close> is left out of its object, an \<open>undefined\<close> array element is written
  \<open>null\<close>. (\<open>to_json VUndefined\<close> is the array-element case; \<open>JSON_stringify\<close> below
  treats \<open>undefined\<close> at the top.)
\<close>

fun to_json :: "js \<Rightarrow> json"
  and to_json_elems :: "js list \<Rightarrow> json list"
  and to_json_props :: "(string \<times> js) list \<Rightarrow> (string \<times> json) list" where
  "to_json VUndefined = JNull"
| "to_json VNull = JNull"
| "to_json (VBool b) = JBool b"
| "to_json (VNum n) = JNum n"
| "to_json (VStr s) = JStr s"
| "to_json (VArr xs) = JArr (to_json_elems xs)"
| "to_json (VObj kvs) = JObj (to_json_props kvs)"
| "to_json_elems [] = []"
| "to_json_elems (x # xs) = to_json x # to_json_elems xs"
| "to_json_props [] = []"
| "to_json_props ((k, v) # kvs) =
     (if v = VUndefined then to_json_props kvs else (k, to_json v) # to_json_props kvs)"


section \<open>JavaScript operations the programs use\<close>

text \<open>Truthiness, as \<open>if (v)\<close>, \<open>!v\<close>, \<open>a && b\<close> and \<open>a || b\<close> test it.\<close>

fun truthy :: "js \<Rightarrow> bool" where
  "truthy VUndefined = False"
| "truthy VNull = False"
| "truthy (VBool b) = b"
| "truthy (VNum n) = (n \<noteq> 0)"
| "truthy (VStr s) = (s \<noteq> [])"
| "truthy (VArr xs) = True"
| "truthy (VObj kvs) = True"

text \<open>\<open>a || b\<close>.\<close>

definition js_or :: "js \<Rightarrow> js \<Rightarrow> js" where
  "js_or a b = (if truthy a then a else b)"

text \<open>
  Reading a property \<open>v.k\<close>. On \<open>undefined\<close> and \<open>null\<close> the read throws a TypeError:
  \<open>nullish\<close> marks these, and every definition below tests it where the source reads a
  property of a value that can be \<open>null\<close>. On any other value that is not an object, the
  properties the programs read (\<open>id\<close>, \<open>image\<close>, \<open>title\<close>, ...) are \<open>undefined\<close>.
\<close>

fun nullish :: "js \<Rightarrow> bool" where
  "nullish VUndefined = True"
| "nullish VNull = True"
| "nullish v = False"

fun get_prop :: "js \<Rightarrow> string \<Rightarrow> js" where
  "get_prop (VObj kvs) k = (case map_of kvs k of Some v \<Rightarrow> v | None \<Rightarrow> VUndefined)"
| "get_prop v k = VUndefined"

text \<open>
  Writing a property, \<open>o.k = v\<close> and what the spread \<open>{...o, k: v}\<close> does for each
  of its keys: an existing property keeps its place, a new one goes last.
\<close>

fun set_prop :: "(string \<times> 'a) list \<Rightarrow> string \<Rightarrow> 'a \<Rightarrow> (string \<times> 'a) list" where
  "set_prop [] k v = [(k, v)]"
| "set_prop ((k', v') # kvs) k v =
     (if k' = k then (k, v) # kvs else (k', v') # set_prop kvs k v)"

text \<open>
  The decimal digits of a natural number, and \<open>String(v)\<close>. For an integer below
  \<open>10^21\<close> in absolute value, so for every number held here, \<open>String\<close> gives the plain
  decimal form.
\<close>

fun decimal :: "nat \<Rightarrow> string" where
  "decimal n =
     (if n < 10 then [''0123456789'' ! n]
      else decimal (n div 10) @ [''0123456789'' ! (n mod 10)])"

declare decimal.simps [simp del]

fun join_comma :: "string list \<Rightarrow> string" where
  "join_comma [] = []"
| "join_comma [s] = s"
| "join_comma (s # t # ss) = s @ '','' @ join_comma (t # ss)"

fun to_string :: "js \<Rightarrow> string"
  and to_string_elems :: "js list \<Rightarrow> string list" where
  "to_string VUndefined = ''undefined''"
| "to_string VNull = ''null''"
| "to_string (VBool b) = (if b then ''true'' else ''false'')"
| "to_string (VNum n) =
     (if sint n < 0 then ''-'' @ decimal (nat (- sint n)) else decimal (nat (sint n)))"
| "to_string (VStr s) = s"
| "to_string (VArr xs) = join_comma (to_string_elems xs)"
| "to_string (VObj kvs) = ''[object Object]''"
| "to_string_elems [] = []"
| "to_string_elems (x # xs) =
     (if nullish x then [] else to_string x) # to_string_elems xs"

text \<open>\<open>s.startsWith(p)\<close> and \<open>s.substring(0, n)\<close> (which is \<open>take n s\<close>).\<close>

definition startsWith :: "string \<Rightarrow> string \<Rightarrow> bool" where
  "startsWith s p = (take (length p) s = p)"

text \<open>
  \<open>encodeURIComponent\<close>: every byte other than the unreserved characters
  \<open>A-Z a-z 0-9 - _ . ! ~ * ' ( )\<close> becomes \<open>%XX\<close> in upper-case hexadecimal. (The
  function throws on a string with a lone surrogate; such a string has no UTF-8
  encoding, so is not among the strings modelled.)
\<close>

definition unreserved :: "char \<Rightarrow> bool" where
  "unreserved c =
     (c \<in> set (''ABCDEFGHIJKLMNOPQRSTUVWXYZabcdefghijklmnopqrstuvwxyz0123456789-_.!~*()''
               @ [CHR 0x27]))"

definition hex_digit :: "nat \<Rightarrow> char" where
  "hex_digit n = ''0123456789ABCDEF'' ! n"

definition percent :: "char \<Rightarrow> string" where
  "percent c =
     (if unreserved c then [c]
      else [CHR ''%'', hex_digit (of_char c div 16), hex_digit (of_char c mod 16)])"

definition encodeURIComponent :: "string \<Rightarrow> string" where
  "encodeURIComponent s = concat (map percent s)"

text \<open>\<open>s.split('/')\<close> and \<open>parts.slice(-2).join('/')\<close>.\<close>

fun split_slash :: "string \<Rightarrow> string list" where
  "split_slash [] = [[]]"
| "split_slash (c # cs) =
     (if c = CHR ''/'' then [] # split_slash cs
      else (case split_slash cs of p # ps \<Rightarrow> (c # p) # ps | [] \<Rightarrow> [[c]]))"

fun join_slash :: "string list \<Rightarrow> string" where
  "join_slash [] = []"
| "join_slash [s] = s"
| "join_slash (s # t # ss) = s @ ''/'' @ join_slash (t # ss)"

definition last_two :: "string \<Rightarrow> string" where
  "last_two s = (let parts = split_slash s in join_slash (drop (length parts - 2) parts))"

text \<open>
  \<open>path.join(dir, 'public', p)\<close> on a POSIX system, for an absolute and normalised
  \<open>dir\<close> given by its segments: the segments of \<open>p\<close> are taken in order, an empty one
  and \<open>.\<close> are dropped, \<open>..\<close> removes the segment before it (none at the root).
\<close>

definition path_step :: "string list \<Rightarrow> string \<Rightarrow> string list" where
  "path_step stack seg =
     (if seg = [] \<or> seg = ''.'' then stack
      else if seg = ''..'' then tl stack
      else seg # stack)"

definition path_join_public :: "string list \<Rightarrow> string \<Rightarrow> string list" where
  "path_join_public dir p = rev (foldl path_step (rev (dir @ [''public''])) (split_slash p))"

section \<open>Errors and responses\<close>

text \<open>
  What a \<open>throw\<close> or a rejected promise carries. \<open>ENOENT\<close>: \<open>readFileSync\<close> on an absent
  file. \<open>SyntaxError\<close>: \<open>JSON.parse\<close> on a text that is not JSON. \<open>TypeError\<close>: a property
  read on \<open>null\<close>, a call of something that is not a function, an iteration over a value
  that is not iterable. \<open>StoreError\<close>: an error of the remote store or its transport.
\<close>

datatype error =
    ENOENT
  | SyntaxError
  | TypeError
  | StoreError
  | OnlyImages
  | FileTooLarge
  | NotConfigured

text \<open>
  \<open>err.message\<close>. The texts of the first four are the engine's or the store's and are
  represented by the name of the error.
\<close>

fun message :: "error \<Rightarrow> string" where
  "message ENOENT = ''ENOENT''"
| "message SyntaxError = ''SyntaxError''"
| "message TypeError = ''TypeError''"
| "message StoreError = ''StoreError''"
| "message OnlyImages = ''Only image files are allowed!''"
| "message FileTooLarge = ''File too large''"
| "message NotConfigured = ''Supabase not configured''"

text \<open>A response: its status and the JSON document \<open>res.json\<close> sends.\<close>

record response =
  status :: nat
  payload :: json

definition res_json :: "nat \<Rightarrow> js \<Rightarrow> response" where
  "res_json code v = \<lparr>status = code, payload = to_json v\<rparr>"

text \<open>\<open>res.status(500).json({ error: err.message })\<close>.\<close>

definition server_error :: "error \<Rightarrow> response" where
  "server_error e = res_json 500 (VObj [(''error'', VStr (message e))])"


section \<open>The remote store\<close>

text \<open>
  Modelled from the spec: the remote store behind the client of \<open>@supabase/supabase-js\<close>,
  which is not part of the repository. The spec (4.3 and the glossary) gives it named
  collections with select-one, insert, update, delete and upsert (insert-or-update keyed
  by the record identifier), and a bucket with upload and delete; so: named tables of
  rows (JSON objects) with the column \<open>id\<close> as primary key, and a bucket of stored
  objects named by their paths.

  A call on the client is a network request. \<open>schedule\<close> lists what happens to the next
  requests, in order: \<open>Served\<close>, the store carries the request out; \<open>Refused\<close>, the
  awaited result is \<open>{ data: null, error }\<close> and nothing changes; \<open>Rejected\<close>, the
  promise rejects, so the \<open>await\<close> throws. With an empty schedule every request is served.
  An awaited call returns \<open>Inl e\<close> when it throws and \<open>Inr (data, error)\<close> otherwise.
\<close>

datatype outcome = Served | Refused | Rejected

record remote =
  tables :: "string \<Rightarrow> json list"
  bucket :: "string list"
  schedule :: "outcome list"

type_synonym reply = "js \<times> error option"

definition next_outcome :: "remote \<Rightarrow> outcome \<times> remote" where
  "next_outcome r =
     (case schedule r of
        [] \<Rightarrow> (Served, r)
      | out # outs \<Rightarrow> (out, r\<lparr>schedule := outs\<rparr>))"

fun column :: "json \<Rightarrow> string \<Rightarrow> json" where
  "column (JObj kvs) k = (case map_of kvs k of Some v \<Rightarrow> v | None \<Rightarrow> JNull)"
| "column row k = JNull"

definition row_id :: "json \<Rightarrow> json" where
  "row_id row = column row ''id''"

text \<open>Modelled from the spec: \<open>.eq('id', i)\<close>, the rows with this identifier.\<close>

definition has_id :: "string \<Rightarrow> json \<Rightarrow> bool" where
  "has_id i row = (row_id row = JStr i)"

text \<open>
  Modelled from the spec: an update of a row. The columns of the request's payload
  overwrite those of the row (should the payload name a column twice, its first value
  counts, as in \<open>column\<close>).
\<close>

fun merge :: "json \<Rightarrow> json \<Rightarrow> json" where
  "merge (JObj old) (JObj new) = JObj (foldr (\<lambda>(k, v) acc. set_prop acc k v) new old)"
| "merge old new = new"

definition put_table :: "string \<Rightarrow> json list \<Rightarrow> remote \<Rightarrow> remote" where
  "put_table tbl rows r = r\<lparr>tables := (tables r)(tbl := rows)\<rparr>"

text \<open>
  Modelled from the spec: select-one, \<open>.select(cols).eq('id', i).single()\<close>: the one row
  with this id, or an error.
\<close>

definition project :: "string list option \<Rightarrow> json \<Rightarrow> json" where
  "project cols row =
     (case cols of None \<Rightarrow> row | Some ks \<Rightarrow> JObj (map (\<lambda>k. (k, column row k)) ks))"

definition select_single ::
  "string \<Rightarrow> string list option \<Rightarrow> string \<Rightarrow> remote \<Rightarrow> (error + reply) \<times> remote" where
  "select_single tbl cols i r =
     (case next_outcome r of
        (Rejected, r') \<Rightarrow> (Inl StoreError, r')
      | (Refused, r') \<Rightarrow> (Inr (VNull, Some StoreError), r')
      | (Served, r') \<Rightarrow>
          (case filter (has_id i) (tables r' tbl) of
             [row] \<Rightarrow> (Inr (of_json (project cols row), None), r')
           | _ \<Rightarrow> (Inr (VNull, Some StoreError), r')))"

text \<open>
  Modelled from the spec: insert, \<open>.insert([row]).select().single()\<close>. The payload is
  the JSON serialisation of the row; a row without id or with the id of a stored row
  violates the primary key.
\<close>

definition insert_single :: "string \<Rightarrow> js \<Rightarrow> remote \<Rightarrow> (error + reply) \<times> remote" where
  "insert_single tbl row r =
     (case next_outcome r of
        (Rejected, r') \<Rightarrow> (Inl StoreError, r')
      | (Refused, r') \<Rightarrow> (Inr (VNull, Some StoreError), r')
      | (Served, r') \<Rightarrow>
          (let new = to_json row in
           if row_id new = JNull \<or> row_id new \<in> set (map row_id (tables r' tbl))
           then (Inr (VNull, Some StoreError), r')
           else (Inr (of_json new, None), put_table tbl (tables r' tbl @ [new]) r')))"

text \<open>
  Modelled from the spec: update, \<open>.update(patch).eq('id', i).select().single()\<close>. The
  payload is the JSON serialisation of the patch, so a property whose value is
  \<open>undefined\<close> names no column. When the rows with the id are not exactly one, the
  result carries an error and the table is left as it was.
\<close>

definition update_single ::
  "string \<Rightarrow> js \<Rightarrow> string \<Rightarrow> remote \<Rightarrow> (error + reply) \<times> remote" where
  "update_single tbl patch i r =
     (case next_outcome r of
        (Rejected, r') \<Rightarrow> (Inl StoreError, r')
      | (Refused, r') \<Rightarrow> (Inr (VNull, Some StoreError), r')
      | (Served, r') \<Rightarrow>
          (case filter (has_id i) (tables r' tbl) of
             [row] \<Rightarrow>
               (Inr (of_json (merge row (to_json patch)), None),
                put_table tbl
                  (map (\<lambda>row. if has_id i row then merge row (to_json patch) else row)
                     (tables r' tbl)) r')
           | _ \<Rightarrow> (Inr (VNull, Some StoreError), r')))"

text \<open>
  Modelled from the spec: delete, \<open>.delete().eq('id', i)\<close>; no error when no row has
  the id.
\<close>

definition delete_rows :: "string \<Rightarrow> string \<Rightarrow> remote \<Rightarrow> (error + reply) \<times> remote" where
  "delete_rows tbl i r =
     (case next_outcome r of
        (Rejected, r') \<Rightarrow> (Inl StoreError, r')
      | (Refused, r') \<Rightarrow> (Inr (VNull, Some StoreError), r')
      | (Served, r') \<Rightarrow>
          (Inr (VNull, None), put_table tbl (filter (\<lambda>row. \<not> has_id i row) (tables r' tbl)) r'))"

text \<open>
  Modelled from the spec: upsert, \<open>.upsert([row])\<close>, insert-or-update keyed by the
  record identifier: insert, or on a conflict on the primary key overwrite the columns
  of the stored row with the payload's.
\<close>

definition upsert_rows :: "json \<Rightarrow> json list \<Rightarrow> json list" where
  "upsert_rows new rows =
     (if row_id new \<in> set (map row_id rows)
      then map (\<lambda>old. if row_id old = row_id new then merge old new else old) rows
      else rows @ [new])"

definition upsert :: "string \<Rightarrow> js \<Rightarrow> remote \<Rightarrow> (error + reply) \<times> remote" where
  "upsert tbl row r =
     (case next_outcome r of
        (Rejected, r') \<Rightarrow> (Inl StoreError, r')
      | (Refused, r') \<Rightarrow> (Inr (VNull, Some StoreError), r')
      | (Served, r') \<Rightarrow>
          (let new = to_json row in
           if row_id new = JNull then (Inr (VNull, Some StoreError), r')
           else (Inr (VNull, None), put_table tbl (upsert_rows new (tables r' tbl)) r')))"

text \<open>
  Modelled from the spec: the bucket's upload and delete,
  \<open>storage.from('product-images').upload(path, ...)\<close> and \<open>.remove([path])\<close>.
\<close>

definition storage_upload :: "string \<Rightarrow> remote \<Rightarrow> (error + reply) \<times> remote" where
  "storage_upload p r =
     (case next_outcome r of
        (Rejected, r') \<Rightarrow> (Inl StoreError, r')
      | (Refused, r') \<Rightarrow> (Inr (VNull, Some StoreError), r')
      | (Served, r') \<Rightarrow>
          (if p \<in> set (bucket r') then (Inr (VNull, Some StoreError), r')
           else (Inr (VObj [(''path'', VStr p)], None), r'\<lparr>bucket := bucket r' @ [p]\<rparr>)))"

definition storage_remove :: "string \<Rightarrow> remote \<Rightarrow> (error + reply) \<times> remote" where
  "storage_remove p r =
     (case next_outcome r of
        (Rejected, r') \<Rightarrow> (Inl StoreError, r')
      | (Refused, r') \<Rightarrow> (Inr (VNull, Some StoreError), r')
      | (Served, r') \<Rightarrow>
          (Inr (VNull, None), r'\<lparr>bucket := filter (\<lambda>q. q \<noteq> p) (bucket r')\<rparr>))"

section \<open>The local file store\<close>

text \<open>
  The text of a file is represented by what \<open>JSON.parse\<close> makes of it: the document it
  holds, or \<open>Unparsable\<close>. \<open>dirname\<close> holds the segments of \<open>__dirname\<close>, the directory
  of the program. \<open>data_dir\<close> maps the names of the files of its \<open>data\<close> directory
  to their texts, \<open>public_dir\<close> is the set of the files below its \<open>public\<close> directory,
  each named by its path from there (\<open>uploads/a.png\<close>). Files elsewhere are not part
  of the world. Writing a file of \<open>data\<close> always succeeds (the directory exists and is
  writable).
\<close>

datatype file_text = Document json | Unparsable

record world =
  dirname :: "string list"
  data_dir :: "string \<rightharpoonup> file_text"
  public_dir :: "string set"
  store :: remote

definition readFileSync :: "string \<Rightarrow> world \<Rightarrow> error + file_text" where
  "readFileSync name w = (case data_dir w name of None \<Rightarrow> Inl ENOENT | Some t \<Rightarrow> Inr t)"

fun JSON_parse :: "file_text \<Rightarrow> error + js" where
  "JSON_parse (Document d) = Inr (of_json d)"
| "JSON_parse Unparsable = Inl SyntaxError"

text \<open>\<open>JSON.stringify(v, null, 2)\<close>; \<open>None\<close> is the result \<open>undefined\<close>.\<close>

definition JSON_stringify :: "js \<Rightarrow> file_text option" where
  "JSON_stringify v = (if v = VUndefined then None else Some (Document (to_json v)))"

text \<open>Lines 209-215: both failures of the \<open>try\<close> block end in \<open>return []\<close>.\<close>

definition readData :: "string \<Rightarrow> world \<Rightarrow> js" where
  "readData filename w =
     (case readFileSync filename w of
        Inl err \<Rightarrow> VArr []
      | Inr t \<Rightarrow> (case JSON_parse t of Inl err \<Rightarrow> VArr [] | Inr v \<Rightarrow> v))"

text \<open>Lines 218-220. \<open>writeFileSync\<close> throws a TypeError when given \<open>undefined\<close> to write.\<close>

definition writeData :: "string \<Rightarrow> js \<Rightarrow> world \<Rightarrow> error + world" where
  "writeData filename data w =
     (case JSON_stringify data of
        None \<Rightarrow> Inl TypeError
      | Some t \<Rightarrow> Inr (w\<lparr>data_dir := (data_dir w)(filename \<mapsto> t)\<rparr>))"

text \<open>
  Where \<open>path.join(__dirname, 'public', p)\<close> leads: to a file below \<open>public\<close>, to a
  file below \<open>data\<close> (through \<open>..\<close>), or elsewhere. A path that ends in a slash names
  a directory, which \<open>unlinkSync\<close> does not remove, and a path with a NUL character is
  refused by \<open>unlinkSync\<close>; both count as elsewhere.
\<close>

datatype place = InPublic string | InData string | Elsewhere

definition resolve :: "string list \<Rightarrow> string \<Rightarrow> place" where
  "resolve dir p =
     (let segs = path_join_public dir p; n = Suc (length dir) in
      if CHR 0x00 \<in> set p \<or> (p \<noteq> [] \<and> last p = CHR ''/'') then Elsewhere
      else if take n segs = dir @ [''public''] \<and> n < length segs
        then InPublic (join_slash (drop n segs))
      else if take n segs = dir @ [''data''] \<and> n < length segs
        then InData (join_slash (drop n segs))
      else Elsewhere)"

text \<open>
  \<open>try { fs.unlinkSync(path.join(__dirname, 'public', p)); } catch (e) {}\<close>: the file
  the path leads to is removed, if there is one; no error leaves the block.
\<close>

definition unlink_quietly :: "string \<Rightarrow> world \<Rightarrow> world" where
  "unlink_quietly p w =
     (case resolve (dirname w) p of
        InPublic q \<Rightarrow> w\<lparr>public_dir := public_dir w - {q}\<rparr>
      | InData q \<Rightarrow> w\<lparr>data_dir := (data_dir w)(q := None)\<rparr>
      | Elsewhere \<Rightarrow> w)"


section \<open>The server: configuration, requests, middleware\<close>

text \<open>
  Lines 131-133: the two environment variables; an unset or empty one is falsy. The
  routes below are those of a server that runs: in remote mode the call of
  \<open>createClient\<close> at line 139 has returned a client.
\<close>

record config =
  supabaseUrl :: "string option"
  supabaseKey :: "string option"

definition present :: "string option \<Rightarrow> bool" where
  "present v = (case v of None \<Rightarrow> False | Some s \<Rightarrow> s \<noteq> [])"

definition useSupabase :: "config \<Rightarrow> bool" where
  "useSupabase cfg = (present (supabaseUrl cfg) \<and> present (supabaseKey cfg))"

text \<open>
  What a request's handling takes from outside: \<open>uuidv4 env k\<close> is the value of the
  \<open>k\<close>-th call of \<open>uuidv4()\<close> (counted from 0), \<open>now env k\<close> that of the \<open>k\<close>-th call of
  \<open>new Date().toISOString()\<close>, \<open>today env\<close> that of \<open>toLocaleDateString\<close>, and
  \<open>parseInt_comments env\<close> that of \<open>parseInt(comments)\<close> at line 460, \<open>None\<close> when it
  is \<open>NaN\<close> (a request whose comment count lies beyond the numbers held here is not
  modelled).
\<close>

record env =
  uuidv4 :: "nat \<Rightarrow> string"
  now :: "nat \<Rightarrow> string"
  today :: string
  parseInt_comments :: "number option"

text \<open>
  The file part of a multipart body as multer's memory storage describes it; the
  storage sets no \<open>filename\<close>, so \<open>req.file.filename\<close> is \<open>undefined\<close>.
\<close>

record upload =
  originalname :: string
  mimetype :: string
  size :: nat

definition file_filename :: "upload \<Rightarrow> js" where
  "file_filename f = VUndefined"

text \<open>
  A request as it reaches a route: the session object of express-session, the route
  parameter \<open>id\<close>, the parsed body (an object) and the attached file, if any.
\<close>

record request =
  session :: js
  params_id :: string
  body :: "(string \<times> json) list"
  attached :: "upload option"

definition field :: "request \<Rightarrow> string \<Rightarrow> js" where
  "field req k = get_prop (VObj (of_json_props (body req))) k"

text \<open>Lines 257-263.\<close>

definition requireAuth :: "request \<Rightarrow> bool" where
  "requireAuth req = (truthy (session req) \<and> truthy (get_prop (session req) ''userId''))"

definition unauthorized :: response where
  "unauthorized = res_json 401 (VObj [(''error'', VStr ''Unauthorized. Please login.'')])"

text \<open>
  \<open>path.extname\<close> on a POSIX system. The base name is what follows the last slash,
  slashes at the end left aside; the extension is the base name from its last dot on,
  and is empty when there is no dot, when the only dot comes first, and for \<open>..\<close>.
\<close>

definition extname :: "string \<Rightarrow> string" where
  "extname p =
     (let name = rev (takeWhile (\<lambda>c. c \<noteq> CHR ''/'') (dropWhile (\<lambda>c. c = CHR ''/'') (rev p)));
          k = length (takeWhile (\<lambda>c. c \<noteq> CHR ''.'') (rev name)) in
      if k = length name then []
      else if length name - k - 1 = 0 \<or> name = ''..'' then []
      else drop (length name - k - 1) name)"

text \<open>
  \<open>s.toLowerCase()\<close> on the letters of ASCII; any other character is left as it is.
  (The result is only searched for the five names of line 196, and no character
  outside ASCII has a lower case that lets one of them be found.)
\<close>

definition toLowerCase :: "string \<Rightarrow> string" where
  "toLowerCase s =
     map (\<lambda>c. case map_of (zip ''ABCDEFGHIJKLMNOPQRSTUVWXYZ'' ''abcdefghijklmnopqrstuvwxyz'') c of
                 Some l \<Rightarrow> l | None \<Rightarrow> c) s"

fun contains_str :: "string \<Rightarrow> string \<Rightarrow> bool" where
  "contains_str [] p = (p = [])"
| "contains_str (c # cs) p = (startsWith (c # cs) p \<or> contains_str cs p)"

text \<open>\<open>/jpeg|jpg|png|gif|webp/.test(s)\<close>.\<close>

definition allowedTypes :: "string \<Rightarrow> bool" where
  "allowedTypes s =
     (contains_str s ''jpeg'' \<or> contains_str s ''jpg'' \<or> contains_str s ''png''
      \<or> contains_str s ''gif'' \<or> contains_str s ''webp'')"

text \<open>Lines 194-201, and the limit of line 193.\<close>

definition fileFilter :: "upload \<Rightarrow> bool" where
  "fileFilter f =
     (allowedTypes (toLowerCase (extname (originalname f))) \<and> allowedTypes (mimetype f))"

definition upload_single :: "request \<Rightarrow> error + upload option" where
  "upload_single req =
     (case attached req of
        None \<Rightarrow> Inr None
      | Some f \<Rightarrow>
          if \<not> fileFilter f then Inl OnlyImages
          else if size f > 5 * 1024 * 1024 then Inl FileTooLarge
          else Inr (Some f))"

text \<open>
  Modelled from the spec: the public URL by which an uploaded object is referenced, as
  \<open>getPublicUrl\<close> of the client library forms it from the URL of the project (one
  without a slash at its end), the bucket and the path.
\<close>

definition publicUrl :: "config \<Rightarrow> string \<Rightarrow> string" where
  "publicUrl cfg p =
     (case supabaseUrl cfg of None \<Rightarrow> [] | Some u \<Rightarrow> u)
       @ ''/storage/v1/object/public/product-images/'' @ p"

text \<open>Lines 223-241. \<open>k\<close> counts the calls of \<open>uuidv4()\<close> made before.\<close>

definition uploadToSupabase ::
  "config \<Rightarrow> env \<Rightarrow> nat \<Rightarrow> upload \<Rightarrow> remote \<Rightarrow> (error + string) \<times> remote" where
  "uploadToSupabase cfg env k f r =
     (if \<not> useSupabase cfg then (Inl NotConfigured, r)
      else
        let filePath = ''products/'' @ uuidv4 env k @ extname (originalname f) in
        case storage_upload filePath r of
          (Inl e, r') \<Rightarrow> (Inl e, r')
        | (Inr (d, Some e), r') \<Rightarrow> (Inl e, r')
        | (Inr (d, None), r') \<Rightarrow> (Inr (publicUrl cfg filePath), r'))"

text \<open>
  Lines 244-254. An image that is not a string has no \<open>split\<close>: the TypeError is
  caught, as is the rejection of the request; an error in the result is not looked at.
\<close>

definition deleteFromSupabase :: "config \<Rightarrow> js \<Rightarrow> remote \<Rightarrow> remote" where
  "deleteFromSupabase cfg imageUrl r =
     (if useSupabase cfg \<and> truthy imageUrl
      then (case imageUrl of
              VStr s \<Rightarrow> snd (storage_remove (last_two s) r)
            | _ \<Rightarrow> r)
      else r)"

text \<open>
  \<open>catch (err) { res.status(500).json({ error: err.message }); }\<close>, also the error
  handler of lines 530-533, which answers an error of the upload middleware.
\<close>

definition catch500 :: "(error + response) \<times> world \<Rightarrow> response \<times> world" where
  "catch500 x = (case x of (Inl e, w) \<Rightarrow> (server_error e, w) | (Inr res, w) \<Rightarrow> (res, w))"

text \<open>A route \<open>requireAuth, upload.single('image'), handler\<close>.\<close>

definition route_with_upload ::
  "(upload option \<Rightarrow> world \<Rightarrow> (error + response) \<times> world)
     \<Rightarrow> request \<Rightarrow> world \<Rightarrow> response \<times> world" where
  "route_with_upload handler req w =
     (if \<not> requireAuth req then (unauthorized, w)
      else case upload_single req of
             Inl e \<Rightarrow> (server_error e, w)
           | Inr file \<Rightarrow> catch500 (handler file w))"

text \<open>A route \<open>requireAuth, handler\<close>.\<close>

definition route_plain ::
  "(world \<Rightarrow> (error + response) \<times> world) \<Rightarrow> request \<Rightarrow> world \<Rightarrow> response \<times> world" where
  "route_plain handler req w =
     (if \<not> requireAuth req then (unauthorized, w) else catch500 (handler w))"

text \<open>
  \<open>xs.findIndex(p => p.id === i)\<close>, \<open>xs.find(p => p.id === i)\<close> and
  \<open>xs.filter(p => p.id !== i)\<close>. The callback throws on an element \<open>null\<close>; the first
  two stop at the first match.
\<close>

fun findIndex_id :: "string \<Rightarrow> js list \<Rightarrow> error + nat option" where
  "findIndex_id i [] = Inr None"
| "findIndex_id i (p # ps) =
     (if nullish p then Inl TypeError
      else if get_prop p ''id'' = VStr i then Inr (Some 0)
      else (case findIndex_id i ps of
              Inl e \<Rightarrow> Inl e
            | Inr None \<Rightarrow> Inr None
            | Inr (Some n) \<Rightarrow> Inr (Some (Suc n))))"

fun find_id :: "string \<Rightarrow> js list \<Rightarrow> error + js" where
  "find_id i [] = Inr VUndefined"
| "find_id i (p # ps) =
     (if nullish p then Inl TypeError
      else if get_prop p ''id'' = VStr i then Inr p
      else find_id i ps)"

fun filter_not_id :: "string \<Rightarrow> js list \<Rightarrow> error + js list" where
  "filter_not_id i [] = Inr []"
| "filter_not_id i (p # ps) =
     (if nullish p then Inl TypeError
      else (case filter_not_id i ps of
              Inl e \<Rightarrow> Inl e
            | Inr qs \<Rightarrow> Inr (if get_prop p ''id'' \<noteq> VStr i then p # qs else qs)))"


section \<open>The server: product routes\<close>

definition wa_link :: string where
  "wa_link = ''https://wa.me/233501234567?text=Hello%20NK%20Solar%2C%20I%20want%20to%20buy%20''"

text \<open>Lines 338-346. \<open>k\<close> counts the calls of \<open>uuidv4()\<close> made before.\<close>

definition newProduct :: "env \<Rightarrow> nat \<Rightarrow> request \<Rightarrow> js \<Rightarrow> js" where
  "newProduct env k req imageUrl =
     VObj [(''id'', VStr (''prod-'' @ take 8 (uuidv4 env k))),
           (''title'', field req ''title''),
           (''price'', js_or (field req ''price'') (VStr [])),
           (''description'', js_or (field req ''description'') (VStr [])),
           (''image'', imageUrl),
           (''whatsappLink'',
              js_or (field req ''whatsappLink'')
                (VStr (wa_link @ encodeURIComponent (to_string (field req ''title''))))),
           (''createdAt'', VStr (now env 0))]"

text \<open>The object literal of line 350, the row given to \<open>insert\<close>.\<close>

definition product_insert :: "env \<Rightarrow> nat \<Rightarrow> request \<Rightarrow> js \<Rightarrow> js" where
  "product_insert env k req imageUrl =
     VObj [(''id'', get_prop (newProduct env k req imageUrl) ''id''),
           (''title'', field req ''title''),
           (''price'', js_or (field req ''price'') (VStr [])),
           (''description'', js_or (field req ''description'') (VStr [])),
           (''image'', imageUrl),
           (''whatsapp_link'', get_prop (newProduct env k req imageUrl) ''whatsappLink''),
           (''created_at'', VStr (now env 1))]"

text \<open>Lines 348-359.\<close>

definition store_product ::
  "config \<Rightarrow> env \<Rightarrow> nat \<Rightarrow> request \<Rightarrow> js \<Rightarrow> world \<Rightarrow> (error + response) \<times> world" where
  "store_product cfg env k req imageUrl w =
     (if useSupabase cfg then
        (case insert_single ''products'' (product_insert env k req imageUrl) (store w) of
           (Inl e, r) \<Rightarrow> (Inl e, w\<lparr>store := r\<rparr>)
         | (Inr (d, Some e), r) \<Rightarrow> (Inl e, w\<lparr>store := r\<rparr>)
         | (Inr (d, None), r) \<Rightarrow>
             (Inr (res_json 200 (VObj [(''success'', VBool True), (''product'', d)])),
              w\<lparr>store := r\<rparr>))
      else
        (case readData ''products.json'' w of
           VArr products \<Rightarrow>
             (case writeData ''products.json''
                     (VArr (products @ [newProduct env k req imageUrl])) w of
                Inl e \<Rightarrow> (Inl e, w)
              | Inr w' \<Rightarrow>
                  (Inr (res_json 200 (VObj [(''success'', VBool True),
                                            (''product'', newProduct env k req imageUrl)])),
                   w'))
         | _ \<Rightarrow> (Inl TypeError, w)))"

text \<open>Lines 329-363, the handler of \<open>POST /api/products\<close>.\<close>

definition create_product ::
  "config \<Rightarrow> env \<Rightarrow> request \<Rightarrow> upload option \<Rightarrow> world \<Rightarrow> (error + response) \<times> world" where
  "create_product cfg env req file w =
     (case file of
        Some f \<Rightarrow>
          if useSupabase cfg then
            (case uploadToSupabase cfg env 0 f (store w) of
               (Inl e, r) \<Rightarrow> (Inl e, w\<lparr>store := r\<rparr>)
             | (Inr url, r) \<Rightarrow> store_product cfg env 1 req (VStr url) (w\<lparr>store := r\<rparr>))
          else store_product cfg env 0 req (js_or (field req ''image'') (VStr [])) w
      | None \<Rightarrow> store_product cfg env 0 req (js_or (field req ''image'') (VStr [])) w)"

definition post_products :: "config \<Rightarrow> env \<Rightarrow> request \<Rightarrow> world \<Rightarrow> response \<times> world" where
  "post_products cfg env req w = route_with_upload (create_product cfg env req) req w"

definition not_found :: response where
  "not_found = res_json 404 (VObj [(''error'', VStr ''Not found'')])"

text \<open>The properties of an object (the element that matched has an \<open>id\<close>, so is one).\<close>

fun props_of :: "js \<Rightarrow> (string \<times> js) list" where
  "props_of (VObj kvs) = kvs"
| "props_of v = []"

text \<open>
  Lines 390-396: with a file, the old image is unlinked when it is below
  \<open>/uploads/\<close> (a truthy image that is not a string has no \<open>startsWith\<close>), and the
  image of the element is overwritten.
\<close>

definition replace_local_image ::
  "upload option \<Rightarrow> js \<Rightarrow> world \<Rightarrow> (error + js) \<times> world" where
  "replace_local_image file old w =
     (case file of
        None \<Rightarrow> (Inr old, w)
      | Some f \<Rightarrow>
          let oldImage = get_prop old ''image'';
              new = VObj (set_prop (props_of old) ''image''
                            (VStr (''/uploads/'' @ to_string (file_filename f))))
          in if truthy oldImage then
               (case oldImage of
                  VStr s \<Rightarrow>
                    (Inr new, if startsWith s ''/uploads/'' then unlink_quietly s w else w)
                | _ \<Rightarrow> (Inl TypeError, w))
             else (Inr new, w))"

text \<open>Line 398: \<open>{ ...products[index], title, price, description, whatsappLink, updatedAt }\<close>.\<close>

definition merged_product :: "env \<Rightarrow> request \<Rightarrow> js \<Rightarrow> js" where
  "merged_product env req old =
     VObj (set_prop (set_prop (set_prop (set_prop (set_prop (props_of old)
        ''title'' (field req ''title''))
        ''price'' (field req ''price''))
        ''description'' (field req ''description''))
        ''whatsappLink'' (field req ''whatsappLink''))
        ''updatedAt'' (VStr (now env 0)))"

text \<open>Lines 386-400.\<close>

definition update_local ::
  "env \<Rightarrow> request \<Rightarrow> upload option \<Rightarrow> world \<Rightarrow> (error + response) \<times> world" where
  "update_local env req file w =
     (case readData ''products.json'' w of
        VArr products \<Rightarrow>
          (case findIndex_id (params_id req) products of
             Inl e \<Rightarrow> (Inl e, w)
           | Inr None \<Rightarrow> (Inr not_found, w)
           | Inr (Some index) \<Rightarrow>
               (case replace_local_image file (products ! index) w of
                  (Inl e, w1) \<Rightarrow> (Inl e, w1)
                | (Inr old, w1) \<Rightarrow>
                    (case writeData ''products.json''
                            (VArr (products[index := merged_product env req old])) w1 of
                       Inl e \<Rightarrow> (Inl e, w1)
                     | Inr w2 \<Rightarrow>
                         (Inr (res_json 200 (VObj [(''success'', VBool True),
                                                   (''product'', merged_product env req old)])),
                          w2))))
      | _ \<Rightarrow> (Inl TypeError, w))"

text \<open>Lines 374-378.\<close>

definition replace_remote_image ::
  "config \<Rightarrow> env \<Rightarrow> upload option \<Rightarrow> js \<Rightarrow> remote \<Rightarrow> (error + js) \<times> remote" where
  "replace_remote_image cfg env file imageUrl r =
     (case file of
        None \<Rightarrow> (Inr imageUrl, r)
      | Some f \<Rightarrow>
          (case uploadToSupabase cfg env 0 f
                  (if truthy imageUrl then deleteFromSupabase cfg imageUrl r else r) of
             (Inl e, r') \<Rightarrow> (Inl e, r')
           | (Inr url, r') \<Rightarrow> (Inr (VStr url), r')))"

text \<open>The object literal of line 381, the patch given to \<open>update\<close>.\<close>

definition product_patch :: "env \<Rightarrow> request \<Rightarrow> js \<Rightarrow> js" where
  "product_patch env req imageUrl =
     VObj [(''title'', field req ''title''),
           (''price'', field req ''price''),
           (''description'', field req ''description''),
           (''image'', imageUrl),
           (''whatsapp_link'', field req ''whatsappLink''),
           (''updated_at'', VStr (now env 0))]"

text \<open>Lines 371-384.\<close>

definition update_remote ::
  "config \<Rightarrow> env \<Rightarrow> request \<Rightarrow> upload option \<Rightarrow> world \<Rightarrow> (error + response) \<times> world" where
  "update_remote cfg env req file w =
     (case select_single ''products'' None (params_id req) (store w) of
        (Inl e, r) \<Rightarrow> (Inl e, w\<lparr>store := r\<rparr>)
      | (Inr (existing, err), r) \<Rightarrow>
          if \<not> truthy existing then (Inr not_found, w\<lparr>store := r\<rparr>)
          else
            (case replace_remote_image cfg env file (get_prop existing ''image'') r of
               (Inl e, r1) \<Rightarrow> (Inl e, w\<lparr>store := r1\<rparr>)
             | (Inr imageUrl, r1) \<Rightarrow>
                 (case update_single ''products'' (product_patch env req imageUrl)
                         (params_id req) r1 of
                    (Inl e, r2) \<Rightarrow> (Inl e, w\<lparr>store := r2\<rparr>)
                  | (Inr (d, Some e), r2) \<Rightarrow> (Inl e, w\<lparr>store := r2\<rparr>)
                  | (Inr (d, None), r2) \<Rightarrow>
                      (Inr (res_json 200 (VObj [(''success'', VBool True), (''product'', d)])),
                       w\<lparr>store := r2\<rparr>))))"

text \<open>Lines 365-405, \<open>PUT /api/products/:id\<close>.\<close>

definition update_product ::
  "config \<Rightarrow> env \<Rightarrow> request \<Rightarrow> upload option \<Rightarrow> world \<Rightarrow> (error + response) \<times> world" where
  "update_product cfg env req file w =
     (if useSupabase cfg then update_remote cfg env req file w
      else update_local env req file w)"

definition put_product :: "config \<Rightarrow> env \<Rightarrow> request \<Rightarrow> world \<Rightarrow> response \<times> world" where
  "put_product cfg env req w = route_with_upload (update_product cfg env req) req w"

section \<open>The server: the delete routes\<close>

text \<open>
  Lines 407-429 and 484-506 are the same handler for the table \<open>products\<close> with the
  file \<open>products.json\<close> and for \<open>courses\<close> with \<open>courses.json\<close>; \<open>tbl\<close> and \<open>file\<close>
  are these names.
\<close>

definition deleted :: response where
  "deleted = res_json 200 (VObj [(''success'', VBool True), (''message'', VStr ''Deleted'')])"

text \<open>\<open>x?.image\<close>.\<close>

definition image_of :: "js \<Rightarrow> js" where
  "image_of x = (if nullish x then VUndefined else get_prop x ''image'')"

definition delete_remote ::
  "config \<Rightarrow> string \<Rightarrow> request \<Rightarrow> world \<Rightarrow> (error + response) \<times> world" where
  "delete_remote cfg tbl req w =
     (case select_single tbl (Some [''image'']) (params_id req) (store w) of
        (Inl e, r) \<Rightarrow> (Inl e, w\<lparr>store := r\<rparr>)
      | (Inr (found, err), r) \<Rightarrow>
          (case delete_rows tbl (params_id req)
                  (if truthy (image_of found) then deleteFromSupabase cfg (image_of found) r
                   else r) of
             (Inl e, r') \<Rightarrow> (Inl e, w\<lparr>store := r'\<rparr>)
           | (Inr (d, Some e), r') \<Rightarrow> (Inl e, w\<lparr>store := r'\<rparr>)
           | (Inr (d, None), r') \<Rightarrow> (Inr deleted, w\<lparr>store := r'\<rparr>)))"

text \<open>
  \<open>if (x?.image && x.image.startsWith('/uploads/')) { try { unlink } catch (e) {} }\<close>.
\<close>

definition unlink_image :: "js \<Rightarrow> world \<Rightarrow> error + world" where
  "unlink_image found w =
     (if truthy (image_of found) then
        (case image_of found of
           VStr s \<Rightarrow> Inr (if startsWith s ''/uploads/'' then unlink_quietly s w else w)
         | _ \<Rightarrow> Inl TypeError)
      else Inr w)"

definition delete_local :: "string \<Rightarrow> request \<Rightarrow> world \<Rightarrow> (error + response) \<times> world" where
  "delete_local file req w =
     (case readData file w of
        VArr records \<Rightarrow>
          (case find_id (params_id req) records of
             Inl e \<Rightarrow> (Inl e, w)
           | Inr found \<Rightarrow>
               (case unlink_image found w of
                  Inl e \<Rightarrow> (Inl e, w)
                | Inr w1 \<Rightarrow>
                    (case filter_not_id (params_id req) records of
                       Inl e \<Rightarrow> (Inl e, w1)
                     | Inr rest \<Rightarrow>
                         (case writeData file (VArr rest) w1 of
                            Inl e \<Rightarrow> (Inl e, w1)
                          | Inr w2 \<Rightarrow> (Inr deleted, w2)))))
      | _ \<Rightarrow> (Inl TypeError, w))"

definition delete_record ::
  "config \<Rightarrow> string \<Rightarrow> string \<Rightarrow> request \<Rightarrow> world \<Rightarrow> response \<times> world" where
  "delete_record cfg tbl file req w =
     route_plain (if useSupabase cfg then delete_remote cfg tbl req else delete_local file req)
       req w"

text \<open>\<open>DELETE /api/products/:id\<close> and \<open>DELETE /api/courses/:id\<close>.\<close>

definition delete_product :: "config \<Rightarrow> request \<Rightarrow> world \<Rightarrow> response \<times> world" where
  "delete_product cfg req w = delete_record cfg ''products'' ''products.json'' req w"

definition delete_course :: "config \<Rightarrow> request \<Rightarrow> world \<Rightarrow> response \<times> world" where
  "delete_course cfg req w = delete_record cfg ''courses'' ''courses.json'' req w"


section \<open>The server: creating a course\<close>

text \<open>Lines 456-465. \<open>parseInt(comments) || 0\<close> is 0 when the parse gives \<open>NaN\<close> or 0.\<close>

definition newCourse :: "env \<Rightarrow> nat \<Rightarrow> request \<Rightarrow> js \<Rightarrow> js" where
  "newCourse env k req imageUrl =
     VObj [(''id'', VStr (''course-'' @ take 8 (uuidv4 env k))),
           (''title'', field req ''title''),
           (''date'', js_or (field req ''date'') (VStr (today env))),
           (''comments'',
              VNum (case parseInt_comments env of None \<Rightarrow> 0 | Some n \<Rightarrow> n)),
           (''description'', js_or (field req ''description'') (VStr [])),
           (''content'', js_or (field req ''content'') (VStr [])),
           (''image'', imageUrl),
           (''createdAt'', VStr (now env 0))]"

text \<open>The object literal of line 469, the row given to \<open>insert\<close>.\<close>

definition course_insert :: "env \<Rightarrow> nat \<Rightarrow> request \<Rightarrow> js \<Rightarrow> js" where
  "course_insert env k req imageUrl =
     VObj [(''id'', get_prop (newCourse env k req imageUrl) ''id''),
           (''title'', field req ''title''),
           (''date'', get_prop (newCourse env k req imageUrl) ''date''),
           (''comments'', get_prop (newCourse env k req imageUrl) ''comments''),
           (''description'', field req ''description''),
           (''content'', field req ''content''),
           (''image'', imageUrl),
           (''created_at'', VStr (now env 1))]"

text \<open>Lines 467-478.\<close>

definition store_course ::
  "config \<Rightarrow> env \<Rightarrow> nat \<Rightarrow> request \<Rightarrow> js \<Rightarrow> world \<Rightarrow> (error + response) \<times> world" where
  "store_course cfg env k req imageUrl w =
     (if useSupabase cfg then
        (case insert_single ''courses'' (course_insert env k req imageUrl) (store w) of
           (Inl e, r) \<Rightarrow> (Inl e, w\<lparr>store := r\<rparr>)
         | (Inr (d, Some e), r) \<Rightarrow> (Inl e, w\<lparr>store := r\<rparr>)
         | (Inr (d, None), r) \<Rightarrow>
             (Inr (res_json 200 (VObj [(''success'', VBool True), (''course'', d)])),
              w\<lparr>store := r\<rparr>))
      else
        (case readData ''courses.json'' w of
           VArr courses \<Rightarrow>
             (case writeData ''courses.json''
                     (VArr (courses @ [newCourse env k req imageUrl])) w of
                Inl e \<Rightarrow> (Inl e, w)
              | Inr w' \<Rightarrow>
                  (Inr (res_json 200 (VObj [(''success'', VBool True),
                                            (''course'', newCourse env k req imageUrl)])),
                   w'))
         | _ \<Rightarrow> (Inl TypeError, w)))"

text \<open>Lines 448-482, the handler of \<open>POST /api/courses\<close>.\<close>

definition create_course ::
  "config \<Rightarrow> env \<Rightarrow> request \<Rightarrow> upload option \<Rightarrow> world \<Rightarrow> (error + response) \<times> world" where
  "create_course cfg env req file w =
     (case file of
        Some f \<Rightarrow>
          if useSupabase cfg then
            (case uploadToSupabase cfg env 0 f (store w) of
               (Inl e, r) \<Rightarrow> (Inl e, w\<lparr>store := r\<rparr>)
             | (Inr url, r) \<Rightarrow> store_course cfg env 1 req (VStr url) (w\<lparr>store := r\<rparr>))
          else store_course cfg env 0 req (js_or (field req ''image'') (VStr [])) w
      | None \<Rightarrow> store_course cfg env 0 req (js_or (field req ''image'') (VStr [])) w)"

definition post_courses :: "config \<Rightarrow> env \<Rightarrow> request \<Rightarrow> world \<Rightarrow> response \<times> world" where
  "post_courses cfg env req w = route_with_upload (create_course cfg env req) req w"

section \<open>The migration script\<close>

text \<open>
  Lines 1-99. The lines the script prints: \<open>Starting\<close> is line 32, \<open>Migrating c\<close>
  lines 35, 54 and 75, \<open>Migrated n c\<close> lines 48, 69 and 91, \<open>NoFile c\<close> lines 50,
  71 and 93, \<open>Complete\<close> line 96, \<open>Unconfigured\<close> lines 20-22 and \<open>Logged e\<close> what
  \<open>console.error\<close> prints at line 99.
\<close>

datatype line =
    Starting
  | Migrating string
  | Migrated nat string
  | NoFile string
  | Complete
  | Unconfigured
  | Logged error

text \<open>
  The code points of a string, each with the bytes of its UTF-8 encoding: the first
  byte tells how many follow.
\<close>

definition followers :: "char \<Rightarrow> nat" where
  "followers c =
     (if (of_char c :: nat) < 0xC0 then 0
      else if (of_char c :: nat) < 0xE0 then 1
      else if (of_char c :: nat) < 0xF0 then 2
      else 3)"

function code_points :: "string \<Rightarrow> string list" where
  "code_points [] = []"
| "code_points (c # cs) = (c # take (followers c) cs) # code_points (drop (followers c) cs)"
  by pat_completeness auto
termination
  by (relation "measure length") auto

text \<open>
  \<open>for (const x of v)\<close> iterates over the elements of an array and over the code
  points of a string, and throws a TypeError on any other value. \<open>v.length\<close> of an
  array is the number of its elements, that of a string the number of its UTF-16
  code units: two for a code point of four bytes, one for any other. (The loops read
  \<open>length\<close> only after the iteration, so only of these two.)
\<close>

fun iterate :: "js \<Rightarrow> error + js list" where
  "iterate (VArr xs) = Inr xs"
| "iterate (VStr s) = Inr (map VStr (code_points s))"
| "iterate v = Inl TypeError"

fun js_length :: "js \<Rightarrow> nat" where
  "js_length (VArr xs) = length xs"
| "js_length (VStr s) = sum_list (map (\<lambda>p. if length p = 4 then 2 else 1) (code_points s))"
| "js_length v = 0"

text \<open>
  The object literals of lines 40-46, 59-67 and 80-89; reading a property of an
  element \<open>null\<close> throws. \<open>t\<close> is the value of \<open>new Date().toISOString()\<close>.
\<close>

definition user_row :: "string \<Rightarrow> js \<Rightarrow> error + js" where
  "user_row t user =
     (if nullish user then Inl TypeError
      else Inr (VObj [(''id'', get_prop user ''id''),
                      (''username'', get_prop user ''username''),
                      (''password'', get_prop user ''password''),
                      (''role'', js_or (get_prop user ''role'') (VStr ''admin'')),
                      (''created_at'', js_or (get_prop user ''createdAt'') (VStr t))]))"

definition product_row :: "string \<Rightarrow> js \<Rightarrow> error + js" where
  "product_row t product =
     (if nullish product then Inl TypeError
      else Inr (VObj [(''id'', get_prop product ''id''),
                      (''title'', get_prop product ''title''),
                      (''price'', js_or (get_prop product ''price'') (VStr [])),
                      (''description'', js_or (get_prop product ''description'') (VStr [])),
                      (''image'', js_or (get_prop product ''image'') (VStr [])),
                      (''whatsapp_link'', js_or (get_prop product ''whatsappLink'') (VStr [])),
                      (''created_at'', js_or (get_prop product ''createdAt'') (VStr t))]))"

definition course_row :: "string \<Rightarrow> js \<Rightarrow> error + js" where
  "course_row t course =
     (if nullish course then Inl TypeError
      else Inr (VObj [(''id'', get_prop course ''id''),
                      (''title'', get_prop course ''title''),
                      (''date'', js_or (get_prop course ''date'') (VStr [])),
                      (''comments'', js_or (get_prop course ''comments'') (VNum 0)),
                      (''description'', js_or (get_prop course ''description'') (VStr [])),
                      (''content'', js_or (get_prop course ''content'') (VStr [])),
                      (''image'', js_or (get_prop course ''image'') (VStr [])),
                      (''created_at'', js_or (get_prop course ''createdAt'') (VStr t))]))"

text \<open>
  The body of a \<open>for\<close> loop: \<open>await supabase.from(tbl).upsert([row])\<close> for each
  element, in order. A throw ends the loop. The awaited result is not looked at, so
  a refused request does not. \<open>clock n\<close> is the time at the \<open>n\<close>-th element.
\<close>

fun upsert_each ::
  "string \<Rightarrow> (string \<Rightarrow> js \<Rightarrow> error + js) \<Rightarrow> (nat \<Rightarrow> string) \<Rightarrow> nat \<Rightarrow> js list \<Rightarrow> remote
     \<Rightarrow> error option \<times> remote" where
  "upsert_each tbl mk clock n [] r = (None, r)"
| "upsert_each tbl mk clock n (x # xs) r =
     (case mk (clock n) x of
        Inl e \<Rightarrow> (Some e, r)
      | Inr row \<Rightarrow>
          (case upsert tbl row r of
             (Inl e, r') \<Rightarrow> (Some e, r')
           | (Inr res, r') \<Rightarrow> upsert_each tbl mk clock (Suc n) xs r'))"

text \<open>
  One \<open>try { ... } catch (e) { console.log(...) }\<close> block (lines 36-51, 55-72,
  76-94) with the \<open>console.log\<close> before it: whatever is thrown inside, by the read, the
  parse, the iteration or the loop's body, is caught and answered by the same line.
\<close>

definition migrate_collection ::
  "string \<Rightarrow> (string \<Rightarrow> js \<Rightarrow> error + js) \<Rightarrow> (nat \<Rightarrow> string) \<Rightarrow> world \<Rightarrow> line list \<times> world" where
  "migrate_collection c mk clock w =
     (case readFileSync (c @ ''.json'') w of
        Inl e \<Rightarrow> ([Migrating c, NoFile c], w)
      | Inr t \<Rightarrow>
          (case JSON_parse t of
             Inl e \<Rightarrow> ([Migrating c, NoFile c], w)
           | Inr v \<Rightarrow>
               (case iterate v of
                  Inl e \<Rightarrow> ([Migrating c, NoFile c], w)
                | Inr xs \<Rightarrow>
                    (case upsert_each c mk clock 0 xs (store w) of
                       (Some e, r) \<Rightarrow> ([Migrating c, NoFile c], w\<lparr>store := r\<rparr>)
                     | (None, r) \<Rightarrow> ([Migrating c, Migrated (js_length v) c], w\<lparr>store := r\<rparr>)))))"

text \<open>
  Lines 31-97. The result is \<open>Inl e\<close> when the promise of \<open>migrate()\<close> rejects with
  \<open>e\<close>; nothing outside the three blocks can throw.
\<close>

definition migrate :: "(string \<Rightarrow> nat \<Rightarrow> string) \<Rightarrow> world \<Rightarrow> (error + unit) \<times> line list \<times> world" where
  "migrate clock w =
     (let (l1, w1) = migrate_collection ''users'' user_row (clock ''users'') w;
          (l2, w2) = migrate_collection ''products'' product_row (clock ''products'') w1;
          (l3, w3) = migrate_collection ''courses'' course_row (clock ''courses'') w2
      in (Inr (), [Starting] @ l1 @ l2 @ l3 @ [Complete], w3))"

text \<open>
  Line 27, \<open>createClient(supabaseUrl, supabaseKey)\<close>. The function belongs to
  \<open>@supabase/supabase-js\<close>, which is not part of the repository, and throws on a URL
  it does not accept; it is a parameter here: \<open>createClient url key\<close> is \<open>None\<close> when
  the call returns a client and \<open>Some e\<close> when it throws \<open>e\<close>. \<open>client\<close> is the call on
  the two configured values.
\<close>

definition client :: "(string \<Rightarrow> string \<Rightarrow> error option) \<Rightarrow> config \<Rightarrow> error option" where
  "client createClient cfg =
     (case supabaseUrl cfg of
        None \<Rightarrow> None
      | Some url \<Rightarrow> (case supabaseKey cfg of None \<Rightarrow> None | Some key \<Rightarrow> createClient url key))"

text \<open>
  The script: the guard of lines 19-24 (\<open>process.exit(1)\<close>), the call of line 27, then
  \<open>migrate().catch(console.error)\<close>. The result is what the script printed, the exit
  status of the process and the world left behind. Line 27 is outside \<open>migrate\<close> and
  outside any \<open>try\<close>: when it throws, the script has printed nothing, and the runtime
  reports the uncaught exception and ends the process with status 1. After line 99
  the process ends by itself, with status 0.
\<close>

definition script ::
  "(string \<Rightarrow> string \<Rightarrow> error option) \<Rightarrow> config \<Rightarrow> (string \<Rightarrow> nat \<Rightarrow> string) \<Rightarrow> world
     \<Rightarrow> line list \<times> nat \<times> world" where
  "script createClient cfg clock w =
     (if \<not> useSupabase cfg then ([Unconfigured], 1, w)
      else (case client createClient cfg of
              Some e \<Rightarrow> ([], 1, w)
            | None \<Rightarrow>
                (case migrate clock w of
                   (Inl e, ls, w') \<Rightarrow> (ls @ [Logged e], 0, w')
                 | (Inr u, ls, w') \<Rightarrow> (ls, 0, w'))))"


section \<open>What the statements below observe\<close>

text \<open>A value that JSON can hold: no \<open>undefined\<close> anywhere in it.\<close>

fun json_value :: "js \<Rightarrow> bool"
  and json_values :: "js list \<Rightarrow> bool"
  and json_props :: "(string \<times> js) list \<Rightarrow> bool" where
  "json_value VUndefined = False"
| "json_value (VArr xs) = json_values xs"
| "json_value (VObj kvs) = json_props kvs"
| "json_value v = True"
| "json_values [] = True"
| "json_values (x # xs) = (json_value x \<and> json_values xs)"
| "json_props [] = True"
| "json_props ((k, v) # kvs) = (json_value v \<and> json_props kvs)"

text \<open>\<open>writeData(filename, data)\<close> followed by \<open>readData(filename)\<close>.\<close>

definition write_then_read :: "string \<Rightarrow> js \<Rightarrow> world \<Rightarrow> error + js" where
  "write_then_read name data w =
     (case writeData name data w of Inl e \<Rightarrow> Inl e | Inr w' \<Rightarrow> Inr (readData name w'))"

text \<open>
  The format of the strings \<open>uuidv4()\<close> returns, and the regular expressions
  \<open>/^prod-[0-9a-f]{8}$/\<close> and \<open>/^course-[0-9a-f]{8}$/\<close>.
\<close>

definition lower_hex :: "char \<Rightarrow> bool" where
  "lower_hex c = (c \<in> set ''0123456789abcdef'')"

definition uuid_v4 :: "string \<Rightarrow> bool" where
  "uuid_v4 u =
     (length u = 36
      \<and> list_all lower_hex (take 8 u) \<and> u ! 8 = CHR ''-''
      \<and> list_all lower_hex (take 4 (drop 9 u)) \<and> u ! 13 = CHR ''-''
      \<and> u ! 14 = CHR ''4''
      \<and> list_all lower_hex (take 3 (drop 15 u)) \<and> u ! 18 = CHR ''-''
      \<and> u ! 19 \<in> set ''89ab''
      \<and> list_all lower_hex (take 3 (drop 20 u)) \<and> u ! 23 = CHR ''-''
      \<and> list_all lower_hex (drop 24 u))"

definition prod_id_regex :: "string \<Rightarrow> bool" where
  "prod_id_regex s =
     (take 5 s = ''prod-'' \<and> length (drop 5 s) = 8 \<and> list_all lower_hex (drop 5 s))"

definition course_id_regex :: "string \<Rightarrow> bool" where
  "course_id_regex s =
     (take 7 s = ''course-'' \<and> length (drop 7 s) = 8 \<and> list_all lower_hex (drop 7 s))"

section \<open>Concrete inputs\<close>

definition healthy :: remote where
  "healthy = \<lparr>tables = (\<lambda>t. []), bucket = [], schedule = []\<rparr>"

definition world0 :: world where
  "world0 = \<lparr>dirname = [''srv'', ''nk''], data_dir = Map.empty, public_dir = {},
             store = healthy\<rparr>"

definition local_mode :: config where
  "local_mode = \<lparr>supabaseUrl = None, supabaseKey = None\<rparr>"

definition remote_mode :: config where
  "remote_mode = \<lparr>supabaseUrl = Some ''https://nk.supabase.co'', supabaseKey = Some ''key''\<rparr>"

definition env0 :: env where
  "env0 = \<lparr>uuidv4 = (\<lambda>k. ''3f2b8c1e-9a4d-4c7b-8e21-5d6f7a8b9c0d''),
            now = (\<lambda>k. ''2025-01-01T00:00:00.000Z''),
            today = ''Jan 1, 2025'',
            parseInt_comments = None\<rparr>"

definition admin :: js where
  "admin = VObj [(''userId'', VStr ''user-1''), (''username'', VStr ''admin'')]"

definition panel_a :: "(string \<times> json) list" where
  "panel_a = [(''title'', JStr ''Panel A'')]"

section \<open>Collections as the statements below see them\<close>

text \<open>
  The records of a collection: in remote mode the rows of the table, in local mode the
  elements of the array the file holds (none when the file is absent, is not JSON or
  holds something else). \<open>link_key\<close> is the name under which a product's contact link
  is stored: the column \<open>whatsapp_link\<close> of the table, the property \<open>whatsappLink\<close> of
  the file's records.
\<close>

definition stored :: "config \<Rightarrow> string \<Rightarrow> string \<Rightarrow> world \<Rightarrow> json list" where
  "stored cfg tbl file w =
     (if useSupabase cfg then tables (store w) tbl
      else (case data_dir w file of
              Some (Document (JArr recs)) \<Rightarrow> recs
            | _ \<Rightarrow> []))"

definition products :: "config \<Rightarrow> world \<Rightarrow> json list" where
  "products cfg w = stored cfg ''products'' ''products.json'' w"

definition courses :: "config \<Rightarrow> world \<Rightarrow> json list" where
  "courses cfg w = stored cfg ''courses'' ''courses.json'' w"


fun keys :: "json \<Rightarrow> string list" where
  "keys (JObj kvs) = map fst kvs"
| "keys d = []"

fun is_array :: "js \<Rightarrow> bool" where
  "is_array (VArr xs) = True"
| "is_array v = False"

fun is_object :: "json \<Rightarrow> bool" where
  "is_object (JObj kvs) = True"
| "is_object d = False"

text \<open>
  The collection can be worked on: in remote mode the store serves every request; in
  local mode the file is absent or not JSON (an empty collection, by \<open>readData\<close>) or
  holds an array of objects.
\<close>

definition records_file :: "string \<Rightarrow> world \<Rightarrow> bool" where
  "records_file file w =
     (case data_dir w file of
        None \<Rightarrow> True
      | Some Unparsable \<Rightarrow> True
      | Some (Document (JArr recs)) \<Rightarrow> list_all is_object recs
      | Some (Document d) \<Rightarrow> False)"

definition workable :: "config \<Rightarrow> string \<Rightarrow> world \<Rightarrow> bool" where
  "workable cfg file w =
     (if useSupabase cfg then schedule (store w) = [] else records_file file w)"

text \<open>No record of the collection has the identifier.\<close>

definition unknown_id :: "string \<Rightarrow> json list \<Rightarrow> bool" where
  "unknown_id i recs = (JStr i \<notin> set (map row_id recs))"


definition create_untitled :: request where
  "create_untitled = \<lparr>session = admin, params_id = [], body = [(''price'', JStr ''100'')], attached = None\<rparr>"

definition shop :: world where
  "shop = world0\<lparr>data_dir :=
     [''products.json'' \<mapsto>
        Document (JArr [JObj [(''id'', JStr ''prod-1''), (''title'', JStr ''Old panel''),
                              (''price'', JStr ''10''), (''image'', JStr ''/uploads/a.png'')]]),
      ''courses.json'' \<mapsto>
        Document (JArr [JObj [(''id'', JStr ''course-1''), (''title'', JStr ''Wiring'')]])]\<rparr>"


definition remove_unknown :: request where
  "remove_unknown = \<lparr>session = admin, params_id = ''prod-9'', body = [], attached = None\<rparr>"

section \<open>The migration as the statements below see it\<close>

text \<open>Concrete inputs of the script.\<close>

definition clock0 :: "string \<Rightarrow> nat \<Rightarrow> string" where
  "clock0 c n = ''2025-01-01T00:00:00.000Z''"

definition two_users :: world where
  "two_users = \<lparr>dirname = [''srv'', ''nk''], data_dir =
       [''users.json'' \<mapsto>
          Document (JArr [JObj [(''id'', JStr ''user-1''), (''username'', JStr ''admin''),
                                (''password'', JStr ''secret'')],
                          JObj [(''id'', JStr ''user-2''), (''username'', JStr ''clerk''),
                                (''password'', JStr ''hidden'')]])],
     public_dir = {},
     store = \<lparr>tables = (\<lambda>t. []), bucket = [], schedule = [Rejected]\<rparr>\<rparr>"

definition two_users_served :: world where
  "two_users_served = two_users\<lparr>store := healthy\<rparr>"

text \<open>
  The records of the file \<open>c.json\<close>, the elements of the array it holds (none when the
  file is absent, is not JSON or holds something else), and the input identifiers,
  those of the records that have one.
\<close>

definition file_records :: "string \<Rightarrow> world \<Rightarrow> json list" where
  "file_records c w =
     (case data_dir w (c @ ''.json'') of
        Some (Document (JArr recs)) \<Rightarrow> recs
      | _ \<Rightarrow> [])"

definition input_ids :: "string \<Rightarrow> world \<Rightarrow> json list" where
  "input_ids c w = filter (\<lambda>i. i \<noteq> JNull) (map row_id (file_records c w))"

text \<open>No element of the array of \<open>c.json\<close> is \<open>null\<close>.\<close>

definition no_null :: "string \<Rightarrow> world \<Rightarrow> bool" where
  "no_null c w = (JNull \<notin> set (file_records c w))"

text \<open>The number of rows with the identifier \<open>i\<close>.\<close>

definition copies :: "json \<Rightarrow> json list \<Rightarrow> nat" where
  "copies i rows = length (filter (\<lambda>row. row_id row = i) rows)"

text \<open>
  The primary key holds in a table, and in the three tables the script writes.
\<close>

definition keyed :: "string \<Rightarrow> world \<Rightarrow> bool" where
  "keyed c w = distinct (map row_id (tables (store w) c))"

definition keyed_tables :: "world \<Rightarrow> bool" where
  "keyed_tables w = (keyed ''users'' w \<and> keyed ''products'' w \<and> keyed ''courses'' w)"

text \<open>The store serves every request, and no element of the three files is \<open>null\<close>.\<close>

definition migratable :: "world \<Rightarrow> bool" where
  "migratable w =
     (schedule (store w) = []
      \<and> no_null ''users'' w \<and> no_null ''products'' w \<and> no_null ''courses'' w)"

text \<open>The identifiers of a table after the upserts of rows with the identifiers \<open>is\<close>.\<close>

fun add_ids :: "json list \<Rightarrow> json list \<Rightarrow> json list" where
  "add_ids [] ids = ids"
| "add_ids (i # is) ids = add_ids is (if i = JNull \<or> i \<in> set ids then ids else ids @ [i])"

text \<open>
  A row builder, as the loops use it: on an element that is not \<open>null\<close> it returns a
  row, whose \<open>id\<close> is the element's.
\<close>

definition builds_row :: "(string \<Rightarrow> js \<Rightarrow> error + js) \<Rightarrow> bool" where
  "builds_row mk =
     (\<forall>t x. \<not> nullish x \<longrightarrow>
        (\<exists>row. mk t x = Inr row \<and> row_id (to_json row) = to_json (get_prop x ''id'')))"

text \<open>
  The values a loop of the script iterates over, and the identifiers of the rows built
  from them, \<open>null\<close> where there is none.
\<close>

definition elements :: "string \<Rightarrow> world \<Rightarrow> js list" where
  "elements c w =
     (case data_dir w (c @ ''.json'') of
        Some (Document d) \<Rightarrow> (case iterate (of_json d) of Inr xs \<Rightarrow> xs | Inl e \<Rightarrow> [])
      | _ \<Rightarrow> [])"

definition record_ids :: "string \<Rightarrow> world \<Rightarrow> json list" where
  "record_ids c w = map (\<lambda>x. to_json (get_prop x ''id'')) (elements c w)"

section \<open>Products as the statements below see them\<close>





definition text_file :: upload where
  "text_file = \<lparr>originalname = ''notes.txt'', mimetype = ''text/plain'', size = 512\<rparr>"






section \<open>Concrete inputs of the migration script\<close>

text \<open>
  A \<open>createClient\<close> that returns a client for a URL starting with \<open>http://\<close> or
  \<open>https://\<close> and throws for any other; it stands for the library in the concrete runs
  below, which use the URL of \<open>remote_mode\<close> and that of \<open>bad_url\<close>.
\<close>

definition accepts_http :: "string \<Rightarrow> string \<Rightarrow> error option" where
  "accepts_http url key =
     (if startsWith url ''http://'' \<or> startsWith url ''https://'' then None else Some TypeError)"

text \<open>
  The two users of \<open>two_users\<close> and one product, with the store of \<open>two_users\<close>, which
  rejects the first request; and a store that refuses the first request.
\<close>

definition users_and_product :: world where
  "users_and_product =
     two_users\<lparr>data_dir := (data_dir two_users)
       (''products.json'' \<mapsto>
          Document (JArr [JObj [(''id'', JStr ''prod-1''), (''title'', JStr ''Panel'')]]))\<rparr>"

definition refusing_once :: remote where
  "refusing_once = \<lparr>tables = (\<lambda>t. []), bucket = [], schedule = [Refused]\<rparr>"

text \<open>A file of three users whose second element is \<open>null\<close>, with a store that serves.\<close>

definition three_users :: world where
  "three_users = \<lparr>dirname = [''srv'', ''nk''], data_dir =
       [''users.json'' \<mapsto>
          Document (JArr [JObj [(''id'', JStr ''user-1''), (''username'', JStr ''admin''),
                                (''password'', JStr ''secret'')],
                          JNull,
                          JObj [(''id'', JStr ''user-3''), (''username'', JStr ''guest''),
                                (''password'', JStr ''open'')]])],
     public_dir = {},
     store = healthy\<rparr>"

text \<open>
  The two users with a store that rejects the first two requests, and a configuration
  whose URL \<open>accepts_http\<close> does not accept.
\<close>

definition rejecting_twice :: world where
  "rejecting_twice =
     two_users\<lparr>store := \<lparr>tables = (\<lambda>t. []), bucket = [], schedule = [Rejected, Rejected]\<rparr>\<rparr>"

definition bad_url :: config where
  "bad_url = \<lparr>supabaseUrl = Some ''nk.supabase.co'', supabaseKey = Some ''key''\<rparr>"

section \<open>Serialisation\<close>

lemma to_json_of_json [simp]: "to_json (of_json d) = d \<and> of_json d \<noteq> VUndefined"
  and to_json_of_json_elems [simp]: "to_json_elems (of_json_elems ds) = ds"
  and to_json_of_json_props [simp]: "to_json_props (of_json_props kvs) = kvs"
  by (induction d and ds and kvs rule: of_json_of_json_elems_of_json_props.induct) auto

lemma of_json_to_json: "json_value v \<Longrightarrow> of_json (to_json v) = v"
  and of_json_to_json_elems: "json_values xs \<Longrightarrow> of_json_elems (to_json_elems xs) = xs"
  and of_json_to_json_props: "json_props kvs \<Longrightarrow> of_json_props (to_json_props kvs) = kvs"
  by (induction v and xs and kvs rule: json_value_json_values_json_props.induct) auto

section \<open>The local file store: claims C5 and C8\<close>

text \<open>
  C5, as amended. For every file name and every sequence of records that holds JSON
  values only (no property and no element whose value is \<open>undefined\<close>),
  \<open>writeData\<close> followed by \<open>readData\<close> returns the identical sequence, in the same
  order.
\<close>

theorem write_read_roundtrip:
  "json_values records \<Longrightarrow> write_then_read name (VArr records) w = Inr (VArr records)"
  by (simp add: write_then_read_def writeData_def JSON_stringify_def readData_def
      readFileSync_def of_json_to_json_elems)

theorem write_read_roundtrip_witness:
  "json_values [VObj [(''id'', VStr ''prod-1''), (''title'', VStr ''Panel A'')],
                VObj [(''id'', VStr ''prod-2''), (''price'', VNum 5)]]
   \<and> write_then_read ''products.json''
        (VArr [VObj [(''id'', VStr ''prod-1''), (''title'', VStr ''Panel A'')],
               VObj [(''id'', VStr ''prod-2''), (''price'', VNum 5)]]) world0
      = Inr (VArr [VObj [(''id'', VStr ''prod-1''), (''title'', VStr ''Panel A'')],
                   VObj [(''id'', VStr ''prod-2''), (''price'', VNum 5)]])"
  using write_read_roundtrip
    [of "[VObj [(''id'', VStr ''prod-1''), (''title'', VStr ''Panel A'')],
          VObj [(''id'', VStr ''prod-2''), (''price'', VNum 5)]]" "''products.json''" world0]
  by simp

text \<open>
  C5 as stated fails on a record with a property whose value is \<open>undefined\<close>, which is
  what line 340 builds for a request without title: the record read back has no such
  property.
\<close>

theorem write_read_roundtrip_counterexample:
  "write_then_read ''products.json''
     (VArr [VObj [(''id'', VStr ''prod-1''), (''title'', VUndefined)]]) world0
   = Inr (VArr [VObj [(''id'', VStr ''prod-1'')]])
   \<and> VArr [VObj [(''id'', VStr ''prod-1'')]]
       \<noteq> VArr [VObj [(''id'', VStr ''prod-1''), (''title'', VUndefined)]]"
  by (simp add: write_then_read_def writeData_def JSON_stringify_def readData_def
      readFileSync_def world0_def)

text \<open>
  C8. When the file is absent (\<open>readFileSync\<close> throws) or its text is not JSON
  (\<open>JSON.parse\<close> throws), \<open>readData\<close> returns the empty array: the error does not
  reach the caller.
\<close>

theorem readData_swallows:
  assumes "data_dir w name = None \<or> data_dir w name = Some Unparsable"
  shows "(readFileSync name w = Inl ENOENT
          \<or> (readFileSync name w = Inr Unparsable \<and> JSON_parse Unparsable = Inl SyntaxError))
         \<and> readData name w = VArr []"
  using assms by (auto simp: readData_def readFileSync_def)

theorem readData_swallows_witness:
  "readData ''products.json'' world0 = VArr []
   \<and> readData ''users.json'' (world0\<lparr>data_dir := [''users.json'' \<mapsto> Unparsable]\<rparr>) = VArr []"
  using readData_swallows [of world0 "''products.json''"]
    readData_swallows [of "world0\<lparr>data_dir := [''users.json'' \<mapsto> Unparsable]\<rparr>" "''users.json''"]
  by (simp add: world0_def)

section \<open>Authorisation: claim C3\<close>

text \<open>
  C3. A \<open>POST /api/products\<close> request without an authenticated session is answered
  with status 401, and the world after it (the local files, the uploaded files and the
  remote store, so the products collection in particular) is the world before it.
\<close>

theorem post_products_unauthorized:
  assumes "\<not> requireAuth req"
  shows "status (fst (post_products cfg env req w)) = 401
         \<and> snd (post_products cfg env req w) = w"
  using assms
  by (simp add: post_products_def route_with_upload_def unauthorized_def res_json_def)

theorem post_products_unauthorized_witness:
  "\<not> requireAuth \<lparr>session = VObj [], params_id = [], body = panel_a, attached = None\<rparr>
   \<and> status (fst (post_products local_mode env0
         \<lparr>session = VObj [], params_id = [], body = panel_a, attached = None\<rparr> world0)) = 401
   \<and> snd (post_products local_mode env0
         \<lparr>session = VObj [], params_id = [], body = panel_a, attached = None\<rparr> world0) = world0"
proof -
  have anonymous:
    "\<not> requireAuth \<lparr>session = VObj [], params_id = [], body = panel_a, attached = None\<rparr>"
    by (simp add: requireAuth_def)
  show ?thesis
    using anonymous post_products_unauthorized [OF anonymous, of local_mode env0 world0]
    by simp
qed

section \<open>Identifiers: claim C9\<close>

lemma uuid_v4_prefix: "uuid_v4 u \<Longrightarrow> length (take 8 u) = 8 \<and> list_all lower_hex (take 8 u)"
  by (simp add: uuid_v4_def)

text \<open>
  C9. The identifier of a new product is \<open>prod-\<close> followed by the first 8 characters
  of the value of \<open>uuidv4()\<close>, that of a new course \<open>course-\<close> followed by them; when
  that value has the format of a version-4 UUID, the identifiers match
  \<open>/^prod-[0-9a-f]{8}$/\<close> and \<open>/^course-[0-9a-f]{8}$/\<close>.
\<close>

theorem generated_ids:
  assumes "uuid_v4 (uuidv4 env k)"
  shows "get_prop (newProduct env k req img) ''id'' = VStr (''prod-'' @ take 8 (uuidv4 env k))
         \<and> prod_id_regex (''prod-'' @ take 8 (uuidv4 env k))
         \<and> get_prop (newCourse env k req img) ''id'' = VStr (''course-'' @ take 8 (uuidv4 env k))
         \<and> course_id_regex (''course-'' @ take 8 (uuidv4 env k))"
  using uuid_v4_prefix [OF assms]
  by (simp add: newProduct_def newCourse_def prod_id_regex_def course_id_regex_def)

theorem generated_ids_witness:
  "uuid_v4 (uuidv4 env0 0)
   \<and> get_prop (newProduct env0 0
         \<lparr>session = admin, params_id = [], body = panel_a, attached = None\<rparr> (VStr [])) ''id''
       = VStr ''prod-3f2b8c1e''
   \<and> prod_id_regex ''prod-3f2b8c1e''
   \<and> get_prop (newCourse env0 0
         \<lparr>session = admin, params_id = [], body = panel_a, attached = None\<rparr> (VStr [])) ''id''
       = VStr ''course-3f2b8c1e''
   \<and> course_id_regex ''course-3f2b8c1e''"
proof -
  have format: "uuid_v4 (uuidv4 env0 0)"
    by (simp add: env0_def uuid_v4_def lower_hex_def)
  show ?thesis
    using format generated_ids [OF format,
        of "\<lparr>session = admin, params_id = [], body = panel_a, attached = None\<rparr>" "VStr []"]
    by (simp add: env0_def)
qed

section \<open>Shared lemmas\<close>

lemma map_of_of_json_props: "map_of (of_json_props kvs) k = map_option of_json (map_of kvs k)"
  by (induction kvs) auto

lemma field_eq:
  "field req k = (case map_of (body req) k of None \<Rightarrow> VUndefined | Some v \<Rightarrow> of_json v)"
  by (simp add: field_def map_of_of_json_props split: option.splits)

lemma of_json_VArr: "of_json d = VArr xs \<Longrightarrow> \<exists>recs. d = JArr recs \<and> xs = of_json_elems recs"
  by (cases d) auto

lemma to_json_elems_append: "to_json_elems (xs @ ys) = to_json_elems xs @ to_json_elems ys"
  by (induction xs) auto

lemma js_or_defined: "b \<noteq> VUndefined \<Longrightarrow> js_or a b \<noteq> VUndefined"
  by (cases a) (auto simp: js_or_def)

lemma readData_local:
  "\<not> useSupabase cfg \<Longrightarrow> readData file w = VArr xs \<Longrightarrow>
     xs = of_json_elems (stored cfg tbl file w)"
  by (auto simp: readData_def readFileSync_def stored_def dest: of_json_VArr
      split: option.splits file_text.splits sum.splits json.splits)

lemma writeData_local:
  "\<not> useSupabase cfg \<Longrightarrow> writeData file (VArr xs) w = Inr w' \<Longrightarrow>
     stored cfg tbl file w' = to_json_elems xs \<and> store w' = store w
     \<and> public_dir w' = public_dir w"
  by (auto simp: writeData_def JSON_stringify_def stored_def)

lemma route_with_upload_ok:
  "route_with_upload h req w = (res, w') \<Longrightarrow> status res = 200 \<Longrightarrow>
     requireAuth req \<and> (\<exists>file. upload_single req = Inr file \<and> h file w = (Inr res, w'))"
  by (auto simp: route_with_upload_def unauthorized_def server_error_def res_json_def
      catch500_def split: if_splits sum.splits prod.splits)

lemma next_outcome_tables:
  "next_outcome r = (out, r') \<Longrightarrow> tables r' = tables r \<and> bucket r' = bucket r"
  by (auto simp: next_outcome_def split: list.splits)






lemma serving: "schedule r = [] \<Longrightarrow> next_outcome r = (Served, r)"
  by (simp add: next_outcome_def)

section \<open>Creating a product: claims C4 and C10\<close>


lemma store_product_local:
  assumes "\<not> useSupabase cfg" "store_product cfg env k req img w = (Inr res, w')"
  shows "products cfg w' = products cfg w @ [to_json (newProduct env k req img)]"
proof -
  from assms obtain xs where
    r: "readData ''products.json'' w = VArr xs" and
    wr: "writeData ''products.json'' (VArr (xs @ [newProduct env k req img])) w = Inr w'"
    by (auto simp: store_product_def split: js.splits sum.splits)
  from readData_local [OF assms(1) r, where tbl = "''products''"]
    writeData_local [OF assms(1) wr, where tbl = "''products''"]
  show ?thesis
    by (simp add: products_def to_json_elems_append)
qed









lemma post_products_local:
  assumes "\<not> useSupabase cfg" "requireAuth req" "upload_single req = Inr upl"
    "is_array (readData ''products.json'' w)"
  shows "\<exists>w'. post_products cfg env req w
           = (res_json 200 (VObj [(''success'', VBool True),
                (''product'', newProduct env 0 req (js_or (field req ''image'') (VStr [])))]), w')
         \<and> products cfg w'
             = products cfg w @ [to_json (newProduct env 0 req (js_or (field req ''image'') (VStr [])))]"
proof -
  let ?new = "newProduct env 0 req (js_or (field req ''image'') (VStr []))"
  let ?res = "res_json 200 (VObj [(''success'', VBool True), (''product'', ?new)])"
  from assms(4) obtain xs where r: "readData ''products.json'' w = VArr xs"
    by (cases "readData ''products.json'' w") auto
  obtain w' where wr: "writeData ''products.json'' (VArr (xs @ [?new])) w = Inr w'"
    by (simp add: writeData_def JSON_stringify_def)
  from r wr assms(1)
  have st: "store_product cfg env 0 req (js_or (field req ''image'') (VStr [])) w = (Inr ?res, w')"
    by (simp add: store_product_def)
  with assms(1) have "create_product cfg env req upl w = (Inr ?res, w')"
    by (simp add: create_product_def split: option.splits)
  with assms(2,3) have "post_products cfg env req w = (?res, w')"
    by (simp add: post_products_def route_with_upload_def catch500_def)
  with store_product_local [OF assms(1) st] show ?thesis by blast
qed









text \<open>
  C10, as amended. In local mode, for an authenticated request whose file, if any,
  has passed the filter and the size limit, with \<open>products.json\<close> absent, unparsable
  or holding an array, and with a body that has neither \<open>title\<close> nor \<open>whatsappLink\<close>:
  the response is a success, the title of the new record is \<open>undefined\<close>, so the record
  stored and the record sent have no property \<open>title\<close>, and the contact link ends in
  \<open>undefined\<close>.
\<close>

theorem product_without_title:
  assumes "\<not> useSupabase cfg" "requireAuth req" "upload_single req = Inr upl"
    and "is_array (readData ''products.json'' w)"
    and "map_of (body req) ''title'' = None" "map_of (body req) ''whatsappLink'' = None"
  shows "\<exists>res w' rec. post_products cfg env req w = (res, w')
           \<and> status res = 200 \<and> column (payload res) ''success'' = JBool True
           \<and> column (payload res) ''product'' = rec
           \<and> products cfg w' = products cfg w @ [rec]
           \<and> get_prop (newProduct env 0 req (js_or (field req ''image'') (VStr []))) ''title''
               = VUndefined
           \<and> ''title'' \<notin> set (keys rec)
           \<and> column rec ''whatsappLink'' = JStr (wa_link @ ''undefined'')"
proof -
  let ?new = "newProduct env 0 req (js_or (field req ''image'') (VStr []))"
  from post_products_local [OF assms(1-4)] obtain w' where
    "post_products cfg env req w
       = (res_json 200 (VObj [(''success'', VBool True), (''product'', ?new)]), w')"
    "products cfg w' = products cfg w @ [to_json ?new]"
    by blast
  moreover have "?new \<noteq> VUndefined" by (simp add: newProduct_def)
  moreover have "get_prop ?new ''title'' = VUndefined"
    using assms(5) by (simp add: newProduct_def field_eq)
  moreover have "''title'' \<notin> set (keys (to_json ?new))"
    using assms(5) by (simp add: newProduct_def field_eq js_or_def)
  moreover have "column (to_json ?new) ''whatsappLink'' = JStr (wa_link @ ''undefined'')"
    using assms(5,6)
    by (simp add: newProduct_def field_eq js_or_def encodeURIComponent_def percent_def
        unreserved_def)
  ultimately show ?thesis
    by (simp add: res_json_def)
qed

theorem product_without_title_witness:
  "\<exists>res w' rec. post_products local_mode env0 create_untitled world0 = (res, w')
       \<and> status res = 200 \<and> column (payload res) ''success'' = JBool True
       \<and> column (payload res) ''product'' = rec
       \<and> products local_mode w' = [rec]
       \<and> keys rec = [''id'', ''price'', ''description'', ''image'', ''whatsappLink'', ''createdAt'']
       \<and> column rec ''whatsappLink''
           = JStr ''https://wa.me/233501234567?text=Hello%20NK%20Solar%2C%20I%20want%20to%20buy%20undefined''"
proof -
  have local: "\<not> useSupabase local_mode"
    by (simp add: useSupabase_def local_mode_def present_def)
  have auth: "requireAuth create_untitled"
    by (simp add: requireAuth_def create_untitled_def admin_def)
  have upl: "upload_single create_untitled = Inr None"
    by (simp add: upload_single_def create_untitled_def)
  have arr: "is_array (readData ''products.json'' world0)"
    by (simp add: readData_def readFileSync_def world0_def)
  have title: "map_of (body create_untitled) ''title'' = None"
    and link: "map_of (body create_untitled) ''whatsappLink'' = None"
    by (simp_all add: create_untitled_def)
  from product_without_title [OF local auth upl arr title link, of env0]
  obtain res w' rec where "post_products local_mode env0 create_untitled world0 = (res, w')"
    "status res = 200" "column (payload res) ''success'' = JBool True"
    "column (payload res) ''product'' = rec"
    "products local_mode w' = products local_mode world0 @ [rec]"
    "column rec ''whatsappLink'' = JStr (wa_link @ ''undefined'')"
    by blast
  moreover have "products local_mode world0 = []"
    by (simp add: products_def stored_def world0_def local)
  moreover have "column (payload (fst (post_products local_mode env0 create_untitled world0))) ''product''
     = to_json (newProduct env0 0 create_untitled (VStr []))"
    by (simp add: post_products_def route_with_upload_def requireAuth_def admin_def
        create_untitled_def upload_single_def create_product_def store_product_def
        useSupabase_def local_mode_def present_def readData_def readFileSync_def world0_def
        writeData_def JSON_stringify_def catch500_def res_json_def field_def js_or_def)
  moreover have "keys (to_json (newProduct env0 0 create_untitled (VStr [])))
     = [''id'', ''price'', ''description'', ''image'', ''whatsappLink'', ''createdAt'']"
    by (simp add: newProduct_def create_untitled_def field_def js_or_def)
  ultimately show ?thesis
    by (auto simp: wa_link_def)
qed

text \<open>
  C10 as stated fails. The request \<open>create_untitled\<close>, authenticated and in local
  mode, is answered with status 500 and nothing is stored when \<open>products.json\<close> holds
  a JSON value that is not an array (\<open>readData\<close> returns it and \<open>products.push\<close> is
  not a function), and when it carries a file that the filter of lines 194-201 refuses.
\<close>

theorem product_without_title_counterexample:
  "\<not> useSupabase local_mode \<and> requireAuth create_untitled
   \<and> map_of (body create_untitled) ''title'' = None
   \<and> map_of (body create_untitled) ''whatsappLink'' = None
   \<and> post_products local_mode env0 create_untitled
        (world0\<lparr>data_dir := [''products.json'' \<mapsto> Document (JObj [(''a'', JNum 1)])]\<rparr>)
      = (\<lparr>status = 500, payload = JObj [(''error'', JStr ''TypeError'')]\<rparr>,
         world0\<lparr>data_dir := [''products.json'' \<mapsto> Document (JObj [(''a'', JNum 1)])]\<rparr>)
   \<and> post_products local_mode env0 (create_untitled\<lparr>attached := Some text_file\<rparr>) world0
      = (\<lparr>status = 500, payload = JObj [(''error'', JStr ''Only image files are allowed!'')]\<rparr>,
         world0)"
  by (simp add: post_products_def route_with_upload_def requireAuth_def admin_def
      create_untitled_def upload_single_def create_product_def store_product_def
      useSupabase_def local_mode_def present_def readData_def readFileSync_def world0_def
      catch500_def server_error_def res_json_def field_def js_or_def text_file_def
      fileFilter_def allowedTypes_def extname_def toLowerCase_def startsWith_def)


section \<open>Lemmas on records and rows\<close>

lemma map_of_set_prop: "map_of (set_prop kvs k v) k' = (if k' = k then Some v else map_of kvs k')"
  by (induction kvs) auto

lemma map_of_to_json_props:
  "map_of kvs k \<noteq> Some VUndefined \<Longrightarrow>
     map_of (to_json_props kvs) k = map_option to_json (map_of kvs k)"
  by (induction kvs) auto

lemma column_to_json_obj:
  "map_of kvs k \<noteq> Some VUndefined \<Longrightarrow>
     column (JObj (to_json_props kvs)) k
       = (case map_of kvs k of None \<Rightarrow> JNull | Some v \<Rightarrow> to_json v)"
  by (simp add: map_of_to_json_props split: option.splits)

lemma map_of_merge:
  "map_of (foldr (\<lambda>(k, v) acc. set_prop acc k v) new old) k
     = (case map_of new k of Some v \<Rightarrow> Some v | None \<Rightarrow> map_of old k)"
  by (induction new) (auto simp: map_of_set_prop)

lemma column_merge:
  "column (merge old (JObj new)) k = (case map_of new k of Some v \<Rightarrow> v | None \<Rightarrow> column old k)"
  by (cases old) (auto simp: map_of_merge split: option.splits)

lemma of_json_VStr: "of_json d = VStr s \<Longrightarrow> d = JStr s"
  by (cases d) auto


lemma get_prop_of_json_eq:
  "get_prop (of_json d) k = VStr s \<longleftrightarrow> column d k = JStr s"
  by (cases d) (auto simp: map_of_of_json_props dest: of_json_VStr split: option.splits)

lemma length_of_json_elems [simp]: "length (of_json_elems recs) = length recs"
  by (induction recs) auto







section \<open>An identifier no record has: claim C1\<close>

lemma records_file_readData:
  assumes "\<not> useSupabase cfg" "records_file file w"
  shows "readData file w = VArr (of_json_elems (stored cfg tbl file w))
         \<and> list_all is_object (stored cfg tbl file w)"
proof (cases "data_dir w file")
  case None
  with assms show ?thesis by (simp add: readData_def readFileSync_def stored_def)
next
  case (Some t)
  show ?thesis
  proof (cases t)
    case Unparsable
    with Some assms show ?thesis by (simp add: readData_def readFileSync_def stored_def)
  next
    case (Document d)
    with Some assms show ?thesis
      by (cases d) (simp_all add: readData_def readFileSync_def stored_def records_file_def)
  qed
qed

lemma object_not_nullish: "is_object d \<Longrightarrow> \<not> nullish (of_json d)"
  by (cases d) auto

lemma findIndex_id_None:
  "list_all is_object recs \<Longrightarrow> unknown_id i recs \<Longrightarrow>
     findIndex_id i (of_json_elems recs) = Inr None"
  by (induction recs)
    (auto simp: unknown_id_def row_id_def object_not_nullish get_prop_of_json_eq)

lemma find_id_None:
  "list_all is_object recs \<Longrightarrow> unknown_id i recs \<Longrightarrow>
     find_id i (of_json_elems recs) = Inr VUndefined"
  by (induction recs)
    (auto simp: unknown_id_def row_id_def object_not_nullish get_prop_of_json_eq)

lemma filter_not_id_all:
  "list_all is_object recs \<Longrightarrow> unknown_id i recs \<Longrightarrow>
     filter_not_id i (of_json_elems recs) = Inr (of_json_elems recs)"
  by (induction recs)
    (auto simp: unknown_id_def row_id_def object_not_nullish get_prop_of_json_eq)

lemma update_local_unknown:
  assumes "\<not> useSupabase cfg" "records_file ''products.json'' w"
    "unknown_id (params_id req) (products cfg w)"
  shows "update_local env req upl w = (Inr not_found, w)"
  using records_file_readData [OF assms(1,2), of "''products''"] assms(3)
  by (simp add: update_local_def products_def findIndex_id_None)

lemma delete_local_unknown:
  assumes "\<not> useSupabase cfg" "records_file file w"
    "unknown_id (params_id req) (stored cfg tbl file w)"
  shows "\<exists>w'. delete_local file req w = (Inr deleted, w')
           \<and> stored cfg tbl file w' = stored cfg tbl file w"
proof -
  let ?recs = "stored cfg tbl file w"
  from records_file_readData [OF assms(1,2), of tbl]
  have r: "readData file w = VArr (of_json_elems ?recs)" and obj: "list_all is_object ?recs"
    by simp_all
  obtain w' where wr: "writeData file (VArr (of_json_elems ?recs)) w = Inr w'"
    by (simp add: writeData_def JSON_stringify_def)
  from r wr find_id_None [OF obj assms(3)] filter_not_id_all [OF obj assms(3)]
  have "delete_local file req w = (Inr deleted, w')"
    by (simp add: delete_local_def unlink_image_def image_of_def)
  with writeData_local [OF assms(1) wr, of tbl] show ?thesis by simp
qed

lemma unknown_no_row: "unknown_id i rows \<Longrightarrow> filter (has_id i) rows = []"
  by (force simp: unknown_id_def has_id_def filter_empty_conv)

lemma update_remote_unknown:
  assumes "useSupabase cfg" "schedule (store w) = []"
    "unknown_id (params_id req) (products cfg w)"
  shows "update_remote cfg env req upl w = (Inr not_found, w)"
proof -
  from assms(1,3) have "filter (has_id (params_id req)) (tables (store w) ''products'') = []"
    by (simp add: unknown_no_row products_def stored_def)
  with serving [OF assms(2)] show ?thesis
    by (simp add: update_remote_def select_single_def)
qed

lemma delete_remote_unknown:
  assumes "useSupabase cfg" "schedule (store w) = []"
    "unknown_id (params_id req) (stored cfg tbl file w)"
  shows "delete_remote cfg tbl req w = (Inr deleted, w)"
proof -
  from assms(1,3) have none: "filter (has_id (params_id req)) (tables (store w) tbl) = []"
    by (simp add: unknown_no_row stored_def)
  then have all: "filter (\<lambda>row. \<not> has_id (params_id req) row) (tables (store w) tbl)
                    = tables (store w) tbl"
    by (simp add: filter_empty_conv)
  from serving [OF assms(2)] none all show ?thesis
    by (simp add: delete_remote_def select_single_def delete_rows_def image_of_def put_table_def)
qed

lemma delete_record_unknown:
  assumes "requireAuth req" "workable cfg file w"
    "unknown_id (params_id req) (stored cfg tbl file w)"
  shows "fst (delete_record cfg tbl file req w) = deleted
         \<and> stored cfg tbl file (snd (delete_record cfg tbl file req w)) = stored cfg tbl file w"
proof (cases "useSupabase cfg")
  case True
  with assms(2) have "schedule (store w) = []" by (simp add: workable_def)
  from delete_remote_unknown [OF True this assms(3)] True assms(1) show ?thesis
    by (simp add: delete_record_def route_plain_def catch500_def)
next
  case False
  with assms(2) have "records_file file w" by (simp add: workable_def)
  from delete_local_unknown [OF False this assms(3)] False assms(1) show ?thesis
    by (auto simp: delete_record_def route_plain_def catch500_def)
qed

lemma put_product_unknown:
  assumes "requireAuth req" "upload_single req = Inr upl" "workable cfg ''products.json'' w"
    "unknown_id (params_id req) (products cfg w)"
  shows "put_product cfg env req w = (not_found, w)"
proof (cases "useSupabase cfg")
  case True
  with assms(3) have "schedule (store w) = []" by (simp add: workable_def)
  from update_remote_unknown [OF True this assms(4)] True assms(1,2) show ?thesis
    by (simp add: put_product_def route_with_upload_def update_product_def catch500_def)
next
  case False
  with assms(3) have "records_file ''products.json'' w" by (simp add: workable_def)
  from update_local_unknown [OF False this assms(4)] False assms(1,2) show ?thesis
    by (simp add: put_product_def route_with_upload_def update_product_def catch500_def)
qed

lemma delete_remote_result: "delete_remote cfg tbl req w = (Inr res, w') \<Longrightarrow> res = deleted"
  by (auto simp: delete_remote_def split: prod.splits sum.splits option.splits)

lemma delete_local_result: "delete_local file req w = (Inr res, w') \<Longrightarrow> res = deleted"
  by (auto simp: delete_local_def split: js.splits sum.splits)

lemma delete_record_status:
  "status (fst (delete_record cfg tbl name req w)) = 200
   \<or> status (fst (delete_record cfg tbl name req w)) = 401
   \<or> status (fst (delete_record cfg tbl name req w)) = 500"
proof (cases "requireAuth req")
  case False
  then show ?thesis
    by (simp add: delete_record_def route_plain_def unauthorized_def res_json_def)
next
  case True
  let ?h = "if useSupabase cfg then delete_remote cfg tbl req else delete_local name req"
  obtain x w' where h: "?h w = (x, w')" by (cases "?h w") auto
  show ?thesis
  proof (cases x)
    case (Inl e)
    with True h show ?thesis
      by (simp add: delete_record_def route_plain_def catch500_def server_error_def res_json_def)
  next
    case (Inr res)
    with h delete_remote_result [of cfg tbl req w res w'] delete_local_result [of name req w res w']
    have "res = deleted" by (cases "useSupabase cfg") simp_all
    with True h Inr show ?thesis
      by (simp add: delete_record_def route_plain_def catch500_def deleted_def res_json_def)
  qed
qed

text \<open>
  C1, as amended. \<open>PUT /api/products/:id\<close>: for an authenticated request whose file,
  if any, has passed the filter and the size limit, on a collection that can be worked
  on (in local mode \<open>products.json\<close> is absent, unparsable or holds an array of
  objects; in remote mode the store serves every request), an identifier that no
  record has is answered with 404 and the body \<open>{ error: 'Not found' }\<close>, and nothing
  is changed.

  \<open>DELETE /api/products/:id\<close> and \<open>DELETE /api/courses/:id\<close> have no such check and
  never answer 404, whatever the request and the state of the files and the store.
  For an authenticated request on a collection that can be worked on, an identifier
  that no record has is answered with 200 and \<open>{ success: true, message: 'Deleted' }\<close>,
  and the records of the collection are as before.
\<close>

theorem unknown_id_responses:
  "(requireAuth req \<and> upload_single req = Inr upl \<and> workable cfg ''products.json'' w
      \<and> unknown_id (params_id req) (products cfg w)
    \<longrightarrow> put_product cfg env req w = (not_found, w))
   \<and> (requireAuth req \<and> workable cfg ''products.json'' w
      \<and> unknown_id (params_id req) (products cfg w)
    \<longrightarrow> fst (delete_product cfg req w) = deleted
        \<and> products cfg (snd (delete_product cfg req w)) = products cfg w)
   \<and> (requireAuth req \<and> workable cfg ''courses.json'' w
      \<and> unknown_id (params_id req) (courses cfg w)
    \<longrightarrow> fst (delete_course cfg req w) = deleted
        \<and> courses cfg (snd (delete_course cfg req w)) = courses cfg w)
   \<and> status (fst (delete_product cfg req w)) \<noteq> 404
   \<and> status (fst (delete_course cfg req w)) \<noteq> 404
   \<and> status not_found = 404 \<and> payload not_found = JObj [(''error'', JStr ''Not found'')]
   \<and> status deleted = 200
   \<and> payload deleted = JObj [(''success'', JBool True), (''message'', JStr ''Deleted'')]"
proof -
  have put: "requireAuth req \<and> upload_single req = Inr upl \<and> workable cfg ''products.json'' w
               \<and> unknown_id (params_id req) (products cfg w)
             \<longrightarrow> put_product cfg env req w = (not_found, w)"
    using put_product_unknown by blast
  have del: "\<And>tbl file. requireAuth req \<and> workable cfg file w
        \<and> unknown_id (params_id req) (stored cfg tbl file w)
      \<longrightarrow> fst (delete_record cfg tbl file req w) = deleted
          \<and> stored cfg tbl file (snd (delete_record cfg tbl file req w)) = stored cfg tbl file w"
    using delete_record_unknown by blast
  have never: "status (fst (delete_record cfg tbl name req w)) \<noteq> 404" for tbl name
    using delete_record_status [of cfg tbl name req w] by auto
  from put del [of "''products.json''" "''products''"] del [of "''courses.json''" "''courses''"]
    never [of "''products''" "''products.json''"] never [of "''courses''" "''courses.json''"]
  show ?thesis
    by (simp add: delete_product_def delete_course_def products_def courses_def not_found_def
        deleted_def res_json_def)
qed

theorem unknown_id_responses_witness:
  "put_product local_mode env0 (remove_unknown\<lparr>body := panel_a\<rparr>) shop = (not_found, shop)
   \<and> put_product remote_mode env0 (remove_unknown\<lparr>body := panel_a\<rparr>) world0 = (not_found, world0)
   \<and> fst (delete_product local_mode remove_unknown shop) = deleted
   \<and> products local_mode (snd (delete_product local_mode remove_unknown shop))
       = products local_mode shop
   \<and> fst (delete_course local_mode remove_unknown shop) = deleted
   \<and> courses local_mode (snd (delete_course local_mode remove_unknown shop))
       = courses local_mode shop
   \<and> status not_found = 404 \<and> status deleted = 200"
proof -
  have mode: "\<not> useSupabase local_mode" "useSupabase remote_mode"
    by (simp_all add: useSupabase_def local_mode_def remote_mode_def present_def)
  have auth: "requireAuth remove_unknown" "requireAuth (remove_unknown\<lparr>body := panel_a\<rparr>)"
    by (simp_all add: requireAuth_def remove_unknown_def admin_def)
  have upl: "upload_single (remove_unknown\<lparr>body := panel_a\<rparr>) = Inr None"
    by (simp add: upload_single_def remove_unknown_def)
  have ok: "workable local_mode ''products.json'' shop" "workable local_mode ''courses.json'' shop"
    "workable remote_mode ''products.json'' world0"
    using mode by (simp_all add: workable_def records_file_def shop_def world0_def healthy_def)
  have unknown: "unknown_id ''prod-9'' (products local_mode shop)"
    "unknown_id ''prod-9'' (courses local_mode shop)"
    "unknown_id ''prod-9'' (products remote_mode world0)"
    using mode
    by (simp_all add: unknown_id_def products_def courses_def stored_def shop_def world0_def
        healthy_def row_id_def)
  have i: "params_id remove_unknown = ''prod-9''"
    "params_id (remove_unknown\<lparr>body := panel_a\<rparr>) = ''prod-9''"
    by (simp_all add: remove_unknown_def)
  from unknown_id_responses [of "remove_unknown\<lparr>body := panel_a\<rparr>" None local_mode shop env0]
    unknown_id_responses [of "remove_unknown\<lparr>body := panel_a\<rparr>" None remote_mode world0 env0]
    unknown_id_responses [of remove_unknown None local_mode shop env0]
  show ?thesis
    using auth upl ok unknown by (simp add: i)
qed

text \<open>
  C1 as stated fails for the delete routes: an authenticated delete of an identifier
  that no product has is answered with 200 and \<open>{ success: true, message: 'Deleted' }\<close>,
  not with 404, in local mode and, with the store serving, in remote mode.
\<close>

theorem delete_unknown_counterexample:
  "requireAuth remove_unknown
   \<and> unknown_id (params_id remove_unknown) (products local_mode shop)
   \<and> fst (delete_product local_mode remove_unknown shop)
       = \<lparr>status = 200,
          payload = JObj [(''success'', JBool True), (''message'', JStr ''Deleted'')]\<rparr>
   \<and> unknown_id (params_id remove_unknown) (courses remote_mode world0)
   \<and> fst (delete_course remote_mode remove_unknown world0)
       = \<lparr>status = 200,
          payload = JObj [(''success'', JBool True), (''message'', JStr ''Deleted'')]\<rparr>"
  by (simp add: requireAuth_def remove_unknown_def admin_def unknown_id_def products_def
      courses_def stored_def shop_def world0_def healthy_def row_id_def useSupabase_def
      local_mode_def remote_mode_def present_def delete_product_def delete_course_def
      delete_record_def route_plain_def catch500_def delete_local_def delete_remote_def
      readData_def readFileSync_def unlink_image_def image_of_def writeData_def
      JSON_stringify_def deleted_def res_json_def select_single_def next_outcome_def
      delete_rows_def put_table_def has_id_def)


section \<open>Updating a product: claim C7\<close>






















































section \<open>The migration script: claims C2 and C6\<close>

lemma upsert_each_halts:
  assumes "upsert_each tbl mk clk n xs r = (None, r1)"
    and "mk (clk (n + length xs)) x = Inr row" and "upsert tbl row r1 = (Inl e, r2)"
  shows "upsert_each tbl mk clk n (xs @ x # ys) r = (Some e, r2)"
  using assms
proof (induction xs arbitrary: n r)
  case Nil
  then show ?case by simp
next
  case (Cons y xs)
  from Cons.prems(1) obtain row' res r' where
    y: "mk (clk n) y = Inr row'" "upsert tbl row' r = (Inr res, r')" and
    rest: "upsert_each tbl mk clk (Suc n) xs r' = (None, r1)"
    by (auto split: sum.splits prod.splits)
  from Cons.IH [OF rest] Cons.prems(2,3) y show ?case by simp
qed

text \<open>A block prints its first line and then its count or the line of a missing file.\<close>

lemma migrate_collection_lines:
  "\<exists>l w'. migrate_collection c mk clk w = ([Migrating c, l], w')
           \<and> (l = NoFile c \<or> (\<exists>n. l = Migrated n c))"
  by (auto simp: migrate_collection_def split: sum.splits prod.splits option.splits)

lemma script_blocks:
  assumes "useSupabase cfg" "client createClient cfg = None"
  shows "\<exists>l1 w1 l2 w2 l3 w3.
           migrate_collection ''users'' user_row (clock ''users'') w
             = ([Migrating ''users'', l1], w1)
           \<and> migrate_collection ''products'' product_row (clock ''products'') w1
             = ([Migrating ''products'', l2], w2)
           \<and> migrate_collection ''courses'' course_row (clock ''courses'') w2
             = ([Migrating ''courses'', l3], w3)
           \<and> (l1 = NoFile ''users'' \<or> (\<exists>n. l1 = Migrated n ''users''))
           \<and> (l2 = NoFile ''products'' \<or> (\<exists>n. l2 = Migrated n ''products''))
           \<and> (l3 = NoFile ''courses'' \<or> (\<exists>n. l3 = Migrated n ''courses''))
           \<and> script createClient cfg clock w
               = ([Starting, Migrating ''users'', l1, Migrating ''products'', l2,
                   Migrating ''courses'', l3, Complete], 0, w3)"
proof -
  obtain l1 w1 where c1: "migrate_collection ''users'' user_row (clock ''users'') w
      = ([Migrating ''users'', l1], w1)" "l1 = NoFile ''users'' \<or> (\<exists>n. l1 = Migrated n ''users'')"
    using migrate_collection_lines by blast
  obtain l2 w2 where c2: "migrate_collection ''products'' product_row (clock ''products'') w1
      = ([Migrating ''products'', l2], w2)"
      "l2 = NoFile ''products'' \<or> (\<exists>n. l2 = Migrated n ''products'')"
    using migrate_collection_lines by blast
  obtain l3 w3 where c3: "migrate_collection ''courses'' course_row (clock ''courses'') w2
      = ([Migrating ''courses'', l3], w3)"
      "l3 = NoFile ''courses'' \<or> (\<exists>n. l3 = Migrated n ''courses'')"
    using migrate_collection_lines by blast
  from assms c1(1) c2(1) c3(1)
  have "script createClient cfg clock w
      = ([Starting, Migrating ''users'', l1, Migrating ''products'', l2,
          Migrating ''courses'', l3, Complete], 0, w3)"
    by (simp add: script_def migrate_def)
  with c1 c2 c3 show ?thesis by blast
qed

lemma migrate_collection_throw:
  assumes "data_dir w (c @ ''.json'') = Some (Document (JArr (ds @ d # ds')))"
    and "upsert_each c mk clk 0 (of_json_elems ds) (store w) = (None, r1)"
    and "mk (clk (length ds)) (of_json d) = Inr row"
    and "upsert c row r1 = (Inl e, r2)"
  shows "migrate_collection c mk clk w = ([Migrating c, NoFile c], w\<lparr>store := r2\<rparr>)"
proof -
  have "of_json_elems (ds @ d # ds') = of_json_elems ds @ of_json d # of_json_elems ds'"
    by (induction ds) auto
  with upsert_each_halts [OF assms(2), of "of_json d" row e r2 "of_json_elems ds'"] assms(1,3,4)
  show ?thesis
    by (simp add: migrate_collection_def readFileSync_def)
qed

text \<open>
  C2, as amended. An error thrown by an upsert call ends that collection's loop: the
  block leaves the store as it was right after the failed call, so the records after
  it are not upserted. The error is caught by the \<open>catch\<close> block of that collection,
  which prints the line it prints for a missing file (the first statement below). An
  upsert whose awaited result carries an error does not end the loop, which goes on
  with the next record.

  When the store is configured and \<open>createClient\<close> returns, the script runs the three
  blocks in order, each on the world the one before left behind, whatever happened in
  it. Each block prints its first line and then either its count or the line of a
  missing file; then the final banner is printed. Nothing is printed through
  \<open>console.error\<close> (the handler of line 99 is not reached) and the exit status is 0.
\<close>

theorem upsert_error_is_swallowed:
  "(data_dir w (c @ ''.json'') = None
    \<longrightarrow> migrate_collection c mk clk w = ([Migrating c, NoFile c], w))
   \<and> (data_dir w (c @ ''.json'') = Some (Document (JArr (ds @ d # ds')))
      \<and> upsert_each c mk clk 0 (of_json_elems ds) (store w) = (None, reached)
      \<and> mk (clk (length ds)) (of_json d) = Inr row
      \<and> upsert c row reached = (Inl e, halted)
    \<longrightarrow> migrate_collection c mk clk w = ([Migrating c, NoFile c], w\<lparr>store := halted\<rparr>))
   \<and> (mk (clk n) x = Inr row \<and> upsert c row r = (Inr (reply, Some e), r')
    \<longrightarrow> upsert_each c mk clk n (x # xs) r = upsert_each c mk clk (Suc n) xs r')
   \<and> (useSupabase cfg \<and> client createClient cfg = None
    \<longrightarrow> (\<exists>l1 w1 l2 w2 l3 w3.
           migrate_collection ''users'' user_row (clock ''users'') w
             = ([Migrating ''users'', l1], w1)
           \<and> migrate_collection ''products'' product_row (clock ''products'') w1
             = ([Migrating ''products'', l2], w2)
           \<and> migrate_collection ''courses'' course_row (clock ''courses'') w2
             = ([Migrating ''courses'', l3], w3)
           \<and> (l1 = NoFile ''users'' \<or> (\<exists>n. l1 = Migrated n ''users''))
           \<and> (l2 = NoFile ''products'' \<or> (\<exists>n. l2 = Migrated n ''products''))
           \<and> (l3 = NoFile ''courses'' \<or> (\<exists>n. l3 = Migrated n ''courses''))
           \<and> script createClient cfg clock w
               = ([Starting, Migrating ''users'', l1, Migrating ''products'', l2,
                   Migrating ''courses'', l3, Complete], 0, w3)))"
proof (intro conjI impI)
  assume "data_dir w (c @ ''.json'') = None"
  then show "migrate_collection c mk clk w = ([Migrating c, NoFile c], w)"
    by (simp add: migrate_collection_def readFileSync_def)
next
  assume "data_dir w (c @ ''.json'') = Some (Document (JArr (ds @ d # ds')))
      \<and> upsert_each c mk clk 0 (of_json_elems ds) (store w) = (None, reached)
      \<and> mk (clk (length ds)) (of_json d) = Inr row
      \<and> upsert c row reached = (Inl e, halted)"
  then show "migrate_collection c mk clk w = ([Migrating c, NoFile c], w\<lparr>store := halted\<rparr>)"
    using migrate_collection_throw by blast
next
  assume "mk (clk n) x = Inr row \<and> upsert c row r = (Inr (reply, Some e), r')"
  then show "upsert_each c mk clk n (x # xs) r = upsert_each c mk clk (Suc n) xs r'"
    by simp
next
  assume "useSupabase cfg \<and> client createClient cfg = None"
  then show "\<exists>l1 w1 l2 w2 l3 w3.
           migrate_collection ''users'' user_row (clock ''users'') w
             = ([Migrating ''users'', l1], w1)
           \<and> migrate_collection ''products'' product_row (clock ''products'') w1
             = ([Migrating ''products'', l2], w2)
           \<and> migrate_collection ''courses'' course_row (clock ''courses'') w2
             = ([Migrating ''courses'', l3], w3)
           \<and> (l1 = NoFile ''users'' \<or> (\<exists>n. l1 = Migrated n ''users''))
           \<and> (l2 = NoFile ''products'' \<or> (\<exists>n. l2 = Migrated n ''products''))
           \<and> (l3 = NoFile ''courses'' \<or> (\<exists>n. l3 = Migrated n ''courses''))
           \<and> script createClient cfg clock w
               = ([Starting, Migrating ''users'', l1, Migrating ''products'', l2,
                   Migrating ''courses'', l3, Complete], 0, w3)"
    using script_blocks by blast
qed


text \<open>
  C2 as stated fails. With two users and a product to migrate and a store that rejects
  the first request, the upsert of the first user throws; the script prints for the
  users the line of a missing file, migrates the product, prints the final banner and
  nothing through \<open>console.error\<close>, and ends with status 0; no user has been upserted.
\<close>

theorem upsert_error_counterexample:
  "useSupabase remote_mode \<and> client accepts_http remote_mode = None
   \<and> fst (upsert ''users''
        (VObj [(''id'', VStr ''user-1''), (''username'', VStr ''admin''),
               (''password'', VStr ''secret''), (''role'', VStr ''admin''),
               (''created_at'', VStr ''2025-01-01T00:00:00.000Z'')])
        (store users_and_product)) = Inl StoreError
   \<and> fst (script accepts_http remote_mode clock0 users_and_product)
       = [Starting, Migrating ''users'', NoFile ''users'', Migrating ''products'',
          Migrated 1 ''products'', Migrating ''courses'', NoFile ''courses'', Complete]
   \<and> fst (snd (script accepts_http remote_mode clock0 users_and_product)) = 0
   \<and> tables (store (snd (snd (script accepts_http remote_mode clock0 users_and_product))))
        ''users'' = []
   \<and> map row_id
        (tables (store (snd (snd (script accepts_http remote_mode clock0 users_and_product))))
           ''products'') = [JStr ''prod-1'']"
  by (simp add: script_def client_def accepts_http_def startsWith_def migrate_def
      migrate_collection_def readFileSync_def users_and_product_def two_users_def
      remote_mode_def useSupabase_def present_def user_row_def product_row_def upsert_def
      upsert_rows_def put_table_def next_outcome_def js_or_def clock0_def row_id_def)

theorem upsert_error_is_swallowed_witness:
  "migrate_collection ''courses'' course_row (clock0 ''courses'') two_users
     = ([Migrating ''courses'', NoFile ''courses''], two_users)
   \<and> migrate_collection ''users'' user_row (clock0 ''users'') two_users
     = ([Migrating ''users'', NoFile ''users''], two_users\<lparr>store := healthy\<rparr>)
   \<and> upsert_each ''users'' user_row (clock0 ''users'') 0
        [VObj [(''id'', VStr ''user-1''), (''username'', VStr ''admin''),
               (''password'', VStr ''secret'')],
         VObj [(''id'', VStr ''user-2''), (''username'', VStr ''clerk''),
               (''password'', VStr ''hidden'')]] refusing_once
     = upsert_each ''users'' user_row (clock0 ''users'') 1
        [VObj [(''id'', VStr ''user-2''), (''username'', VStr ''clerk''),
               (''password'', VStr ''hidden'')]] healthy
   \<and> (\<exists>l1 l2 l3 w'. script accepts_http remote_mode clock0 users_and_product
          = ([Starting, Migrating ''users'', l1, Migrating ''products'', l2,
              Migrating ''courses'', l3, Complete], 0, w'))"
proof -
  have cfg: "useSupabase remote_mode" "client accepts_http remote_mode = None"
    by (simp_all add: remote_mode_def useSupabase_def present_def client_def accepts_http_def
        startsWith_def)
  let ?d = "JObj [(''id'', JStr ''user-1''), (''username'', JStr ''admin''),
                  (''password'', JStr ''secret'')]"
  let ?d' = "JObj [(''id'', JStr ''user-2''), (''username'', JStr ''clerk''),
                   (''password'', JStr ''hidden'')]"
  let ?row = "VObj [(''id'', VStr ''user-1''), (''username'', VStr ''admin''),
                    (''password'', VStr ''secret''), (''role'', VStr ''admin''),
                    (''created_at'', VStr ''2025-01-01T00:00:00.000Z'')]"
  have users_file: "data_dir two_users (''users'' @ ''.json'') = Some (Document (JArr ([] @ ?d # [?d'])))"
    by (simp add: two_users_def)
  have before: "upsert_each ''users'' user_row (clock0 ''users'') 0 (of_json_elems [])
                  (store two_users) = (None, store two_users)"
    by simp
  have row: "user_row (clock0 ''users'' (length ([] :: json list))) (of_json ?d) = Inr ?row"
    "user_row (clock0 ''users'' 0) (of_json ?d) = Inr ?row"
    by (simp_all add: user_row_def js_or_def clock0_def)
  have throws: "upsert ''users'' ?row (store two_users) = (Inl StoreError, healthy)"
    by (simp add: upsert_def next_outcome_def two_users_def healthy_def)
  have refuses: "upsert ''users'' ?row refusing_once = (Inr (VNull, Some StoreError), healthy)"
    by (simp add: upsert_def next_outcome_def refusing_once_def healthy_def)
  note thrown = upsert_error_is_swallowed [where w = two_users and c = "''users''"
      and ds = "[]" and d = ?d and ds' = "[?d']" and mk = user_row and clk = "clock0 ''users''"
      and reached = "store two_users" and row = ?row and e = StoreError and halted = healthy]
  note refused = upsert_error_is_swallowed [where c = "''users''" and mk = user_row
      and clk = "clock0 ''users''" and row = ?row and e = StoreError and n = 0
      and x = "of_json ?d" and r = refusing_once and reply = VNull and r' = healthy
      and xs = "[of_json ?d']"]
  note run = upsert_error_is_swallowed [where cfg = remote_mode and createClient = accepts_http
      and clock = clock0 and w = users_and_product]
  have absent: "data_dir two_users (''courses'' @ ''.json'') = None"
    by (simp add: two_users_def)
  note missing = upsert_error_is_swallowed [where w = two_users and c = "''courses''"
      and mk = course_row and clk = "clock0 ''courses''"]
  from missing [THEN conjunct1] absent
  have m: "migrate_collection ''courses'' course_row (clock0 ''courses'') two_users
     = ([Migrating ''courses'', NoFile ''courses''], two_users)"
    by simp
  from thrown [THEN conjunct2, THEN conjunct1] users_file before row(1) throws
  have a: "migrate_collection ''users'' user_row (clock0 ''users'') two_users
     = ([Migrating ''users'', NoFile ''users''], two_users\<lparr>store := healthy\<rparr>)"
    by simp
  from refused [THEN conjunct2, THEN conjunct2, THEN conjunct1] row(2) refuses
  have b: "upsert_each ''users'' user_row (clock0 ''users'') 0 [of_json ?d, of_json ?d'] refusing_once
     = upsert_each ''users'' user_row (clock0 ''users'') (Suc 0) [of_json ?d'] healthy"
    by blast
  from run [THEN conjunct2, THEN conjunct2, THEN conjunct2] cfg
  have c: "\<exists>l1 l2 l3 w'. script accepts_http remote_mode clock0 users_and_product
          = ([Starting, Migrating ''users'', l1, Migrating ''products'', l2,
              Migrating ''courses'', l3, Complete], 0, w')"
    by blast
  from m a b c show ?thesis by simp
qed


lemma set_add_ids: "set (add_ids is ids) = set ids \<union> (set is - {JNull})"
  by (induction "is" arbitrary: ids) auto

lemma distinct_add_ids: "distinct ids \<Longrightarrow> distinct (add_ids is ids)"
  by (induction "is" arbitrary: ids) auto

lemma add_ids_known: "set is - {JNull} \<subseteq> set ids \<Longrightarrow> add_ids is ids = ids"
  by (induction "is" arbitrary: ids) auto

lemma add_ids_twice: "add_ids is (add_ids is ids) = add_ids is ids"
  by (rule add_ids_known) (auto simp: set_add_ids)

lemma row_id_merge:
  assumes "row_id new \<noteq> JNull" "row_id old = row_id new"
  shows "row_id (merge old new) = row_id new"
proof (cases new)
  case (JObj kvs)
  with assms show ?thesis
    by (auto simp: row_id_def column_merge split: option.splits)
qed (use assms in \<open>auto simp: row_id_def\<close>)

lemma ids_upsert_rows:
  assumes "row_id new \<noteq> JNull"
  shows "map row_id (upsert_rows new rows)
           = (if row_id new \<in> set (map row_id rows) then map row_id rows
              else map row_id rows @ [row_id new])"
proof (cases "row_id new \<in> set (map row_id rows)")
  case True
  have "map row_id (map (\<lambda>old. if row_id old = row_id new then merge old new else old) rows)
          = map row_id rows"
    by (induction rows) (auto simp: row_id_merge [OF assms])
  with True show ?thesis by (simp add: upsert_rows_def)
next
  case False
  then show ?thesis by (simp add: upsert_rows_def)
qed

lemma upsert_served:
  assumes "schedule r = []"
  shows "\<exists>res r'. upsert tbl row r = (Inr res, r') \<and> schedule r' = []
           \<and> (\<forall>t. t \<noteq> tbl \<longrightarrow> tables r' t = tables r t)
           \<and> map row_id (tables r' tbl)
               = (if row_id (to_json row) = JNull
                     \<or> row_id (to_json row) \<in> set (map row_id (tables r tbl))
                  then map row_id (tables r tbl)
                  else map row_id (tables r tbl) @ [row_id (to_json row)])"
  using assms
  by (auto simp: upsert_def next_outcome_def put_table_def Let_def ids_upsert_rows)

lemma to_json_props_no_key: "k \<notin> fst ` set kvs \<Longrightarrow> map_of (to_json_props kvs) k = None"
  by (induction kvs) auto

lemma row_id_first:
  "''id'' \<notin> fst ` set rest \<Longrightarrow> row_id (to_json (VObj ((''id'', v) # rest))) = to_json v"
  by (cases "v = VUndefined") (simp_all add: row_id_def to_json_props_no_key)

lemma user_row_builds: "builds_row user_row"
  unfolding builds_row_def
proof (intro allI impI)
  fix t x
  assume "\<not> nullish x"
  then have "user_row t x
      = Inr (VObj ((''id'', get_prop x ''id'')
               # [(''username'', get_prop x ''username''),
                  (''password'', get_prop x ''password''),
                  (''role'', js_or (get_prop x ''role'') (VStr ''admin'')),
                  (''created_at'', js_or (get_prop x ''createdAt'') (VStr t))]))"
    by (simp add: user_row_def)
  moreover have "''id'' \<notin> fst ` set [(''username'', get_prop x ''username''),
                  (''password'', get_prop x ''password''),
                  (''role'', js_or (get_prop x ''role'') (VStr ''admin'')),
                  (''created_at'', js_or (get_prop x ''createdAt'') (VStr t))]"
    by simp
  ultimately show "\<exists>row. user_row t x = Inr row
      \<and> row_id (to_json row) = to_json (get_prop x ''id'')"
    using row_id_first by blast
qed

lemma product_row_builds: "builds_row product_row"
  unfolding builds_row_def
proof (intro allI impI)
  fix t x
  assume "\<not> nullish x"
  then have "product_row t x
      = Inr (VObj ((''id'', get_prop x ''id'')
               # [(''title'', get_prop x ''title''),
                  (''price'', js_or (get_prop x ''price'') (VStr [])),
                  (''description'', js_or (get_prop x ''description'') (VStr [])),
                  (''image'', js_or (get_prop x ''image'') (VStr [])),
                  (''whatsapp_link'', js_or (get_prop x ''whatsappLink'') (VStr [])),
                  (''created_at'', js_or (get_prop x ''createdAt'') (VStr t))]))"
    by (simp add: product_row_def)
  moreover have "''id'' \<notin> fst ` set [(''title'', get_prop x ''title''),
                  (''price'', js_or (get_prop x ''price'') (VStr [])),
                  (''description'', js_or (get_prop x ''description'') (VStr [])),
                  (''image'', js_or (get_prop x ''image'') (VStr [])),
                  (''whatsapp_link'', js_or (get_prop x ''whatsappLink'') (VStr [])),
                  (''created_at'', js_or (get_prop x ''createdAt'') (VStr t))]"
    by simp
  ultimately show "\<exists>row. product_row t x = Inr row
      \<and> row_id (to_json row) = to_json (get_prop x ''id'')"
    using row_id_first by blast
qed

lemma course_row_builds: "builds_row course_row"
  unfolding builds_row_def
proof (intro allI impI)
  fix t x
  assume "\<not> nullish x"
  then have "course_row t x
      = Inr (VObj ((''id'', get_prop x ''id'')
               # [(''title'', get_prop x ''title''),
                  (''date'', js_or (get_prop x ''date'') (VStr [])),
                  (''comments'', js_or (get_prop x ''comments'') (VNum 0)),
                  (''description'', js_or (get_prop x ''description'') (VStr [])),
                  (''content'', js_or (get_prop x ''content'') (VStr [])),
                  (''image'', js_or (get_prop x ''image'') (VStr [])),
                  (''created_at'', js_or (get_prop x ''createdAt'') (VStr t))]))"
    by (simp add: course_row_def)
  moreover have "''id'' \<notin> fst ` set [(''title'', get_prop x ''title''),
                  (''date'', js_or (get_prop x ''date'') (VStr [])),
                  (''comments'', js_or (get_prop x ''comments'') (VNum 0)),
                  (''description'', js_or (get_prop x ''description'') (VStr [])),
                  (''content'', js_or (get_prop x ''content'') (VStr [])),
                  (''image'', js_or (get_prop x ''image'') (VStr [])),
                  (''created_at'', js_or (get_prop x ''createdAt'') (VStr t))]"
    by simp
  ultimately show "\<exists>row. course_row t x = Inr row
      \<and> row_id (to_json row) = to_json (get_prop x ''id'')"
    using row_id_first by blast
qed

lemma upsert_each_served:
  assumes "builds_row mk" "schedule r = []" "list_all (\<lambda>x. \<not> nullish x) xs"
  shows "\<exists>r'. upsert_each tbl mk clk n xs r = (None, r') \<and> schedule r' = []
           \<and> (\<forall>t. t \<noteq> tbl \<longrightarrow> tables r' t = tables r t)
           \<and> map row_id (tables r' tbl)
               = add_ids (map (\<lambda>x. to_json (get_prop x ''id'')) xs) (map row_id (tables r tbl))"
  using assms(2,3)
proof (induction xs arbitrary: n r)
  case Nil
  then show ?case by simp
next
  case (Cons x xs)
  from Cons.prems(2) have "\<not> nullish x" by simp
  with assms(1) obtain row where
    row: "mk (clk n) x = Inr row" "row_id (to_json row) = to_json (get_prop x ''id'')"
    unfolding builds_row_def by blast
  from upsert_served [OF Cons.prems(1), of tbl row] obtain res r1 where
    up: "upsert tbl row r = (Inr res, r1)" "schedule r1 = []"
      "\<forall>t. t \<noteq> tbl \<longrightarrow> tables r1 t = tables r t"
      "map row_id (tables r1 tbl)
         = (if row_id (to_json row) = JNull
               \<or> row_id (to_json row) \<in> set (map row_id (tables r tbl))
            then map row_id (tables r tbl)
            else map row_id (tables r tbl) @ [row_id (to_json row)])"
    by blast
  from Cons.prems(2) have "list_all (\<lambda>x. \<not> nullish x) xs" by simp
  from Cons.IH [OF up(2) this, of "Suc n"] obtain r' where
    rest: "upsert_each tbl mk clk (Suc n) xs r1 = (None, r')" "schedule r' = []"
      "\<forall>t. t \<noteq> tbl \<longrightarrow> tables r' t = tables r1 t"
      "map row_id (tables r' tbl)
         = add_ids (map (\<lambda>x. to_json (get_prop x ''id'')) xs) (map row_id (tables r1 tbl))"
    by blast
  from row up rest show ?case
    by simp
qed

text \<open>
  The loop of a block iterates over the records of the file when the file holds an
  array; over a string it iterates code points, which have no \<open>id\<close>; over anything
  else it does not iterate.
\<close>

lemma nullish_of_json: "nullish (of_json d) = (d = JNull)"
  by (cases d) auto

lemma to_json_get_prop: "to_json (get_prop (of_json d) k) = column d k"
  by (cases d) (auto simp: map_of_of_json_props split: option.splits)

lemma no_null_elements:
  assumes "no_null c w"
  shows "list_all (\<lambda>x. \<not> nullish x) (elements c w)"
proof (cases "data_dir w (c @ ''.json'')")
  case None
  then show ?thesis by (simp add: elements_def)
next
  case (Some t)
  show ?thesis
  proof (cases t)
    case Unparsable
    with Some show ?thesis by (simp add: elements_def)
  next
    case (Document d)
    show ?thesis
    proof (cases d)
      case (JArr ds)
      with Some Document assms have "JNull \<notin> set ds"
        by (simp add: no_null_def file_records_def)
      then have "list_all (\<lambda>x. \<not> nullish x) (of_json_elems ds)"
        by (induction ds) (auto simp: nullish_of_json)
      with Some Document JArr show ?thesis by (simp add: elements_def)
    next
      case (JStr s)
      have "list_all (\<lambda>x. \<not> nullish x) (map VStr ps)" for ps
        by (induction ps) auto
      with Some Document JStr show ?thesis by (simp add: elements_def)
    qed (use Some Document in \<open>simp_all add: elements_def\<close>)
  qed
qed

lemma input_ids_elements: "filter (\<lambda>i. i \<noteq> JNull) (record_ids c w) = input_ids c w"
proof (cases "data_dir w (c @ ''.json'')")
  case None
  then show ?thesis by (simp add: record_ids_def elements_def input_ids_def file_records_def)
next
  case (Some t)
  show ?thesis
  proof (cases t)
    case Unparsable
    with Some show ?thesis
      by (simp add: record_ids_def elements_def input_ids_def file_records_def)
  next
    case (Document d)
    show ?thesis
    proof (cases d)
      case (JArr ds)
      have "map (\<lambda>x. to_json (get_prop x ''id'')) (of_json_elems ds) = map row_id ds"
        by (induction ds) (auto simp: to_json_get_prop row_id_def)
      with Some Document JArr show ?thesis
        by (simp add: record_ids_def elements_def input_ids_def file_records_def)
    next
      case (JStr s)
      have "filter (\<lambda>i. i \<noteq> JNull) (map (\<lambda>x. to_json (get_prop x ''id'')) (map VStr ps)) = []"
        for ps
        by (induction ps) auto
      with Some Document JStr show ?thesis
        by (simp add: record_ids_def elements_def input_ids_def file_records_def)
    qed (use Some Document in
        \<open>simp_all add: record_ids_def elements_def input_ids_def file_records_def\<close>)
  qed
qed

lemma files_cong:
  assumes "data_dir w' = data_dir w"
  shows "elements c w' = elements c w" and "no_null c w' = no_null c w"
    and "record_ids c w' = record_ids c w" and "input_ids c w' = input_ids c w"
  using assms
  by (simp_all add: elements_def no_null_def file_records_def record_ids_def input_ids_def)

lemma migrate_collection_served:
  assumes "builds_row mk" "schedule (store w) = []" "no_null c w"
  shows "\<exists>l w'. migrate_collection c mk clk w = ([Migrating c, l], w')
           \<and> data_dir w' = data_dir w \<and> schedule (store w') = []
           \<and> (\<forall>t. t \<noteq> c \<longrightarrow> tables (store w') t = tables (store w) t)
           \<and> map row_id (tables (store w') c)
               = add_ids (record_ids c w) (map row_id (tables (store w) c))"
proof -
  from upsert_each_served [OF assms(1,2) no_null_elements [OF assms(3)], of c clk 0] obtain r' where
    each: "upsert_each c mk clk 0 (elements c w) (store w) = (None, r')" "schedule r' = []"
      "\<forall>t. t \<noteq> c \<longrightarrow> tables r' t = tables (store w) t"
      "map row_id (tables r' c)
         = add_ids (map (\<lambda>x. to_json (get_prop x ''id'')) (elements c w))
             (map row_id (tables (store w) c))"
    by blast
  show ?thesis
  proof (cases "data_dir w (c @ ''.json'')")
    case None
    with assms(2) show ?thesis
      by (simp add: migrate_collection_def readFileSync_def elements_def record_ids_def)
  next
    case (Some t)
    show ?thesis
    proof (cases t)
      case Unparsable
      with Some assms(2) show ?thesis
        by (simp add: migrate_collection_def readFileSync_def elements_def record_ids_def)
    next
      case (Document d)
      show ?thesis
      proof (cases "iterate (of_json d)")
        case (Inl e)
        with Some Document assms(2) show ?thesis
          by (simp add: migrate_collection_def readFileSync_def elements_def record_ids_def)
      next
        case (Inr xs)
        with Some Document have "elements c w = xs" by (simp add: elements_def)
        with each Some Document Inr show ?thesis
          by (simp add: migrate_collection_def readFileSync_def record_ids_def)
      qed
    qed
  qed
qed

lemma copies_one: "distinct (map row_id rows) \<Longrightarrow> i \<in> set (map row_id rows) \<Longrightarrow> copies i rows = 1"
  by (induction rows) (auto simp: copies_def filter_empty_conv image_iff)

lemma migrate_collection_run:
  assumes "builds_row mk" "schedule (store w) = []" "no_null c w"
  obtains l w' where "migrate_collection c mk clk w = ([Migrating c, l], w')"
    "data_dir w' = data_dir w" "schedule (store w') = []"
    "\<forall>t. t \<noteq> c \<longrightarrow> tables (store w') t = tables (store w) t"
    "map row_id (tables (store w') c) = add_ids (record_ids c w) (map row_id (tables (store w) c))"
  using migrate_collection_served [OF assms, of clk] by blast

lemma migrate_run:
  assumes "migratable w"
  shows "\<exists>ls w'. migrate clock w = (Inr (), ls, w') \<and> data_dir w' = data_dir w
           \<and> schedule (store w') = []
           \<and> map row_id (tables (store w') ''users'')
               = add_ids (record_ids ''users'' w) (map row_id (tables (store w) ''users''))
           \<and> map row_id (tables (store w') ''products'')
               = add_ids (record_ids ''products'' w) (map row_id (tables (store w) ''products''))
           \<and> map row_id (tables (store w') ''courses'')
               = add_ids (record_ids ''courses'' w) (map row_id (tables (store w) ''courses''))"
proof -
  from assms have s0: "schedule (store w) = []"
    and n: "no_null ''users'' w" "no_null ''products'' w" "no_null ''courses'' w"
    by (simp_all add: migratable_def)
  obtain l1 w1 where
    c1: "migrate_collection ''users'' user_row (clock ''users'') w = ([Migrating ''users'', l1], w1)"
    and d1: "data_dir w1 = data_dir w" and s1: "schedule (store w1) = []"
    and o1: "\<forall>t. t \<noteq> ''users'' \<longrightarrow> tables (store w1) t = tables (store w) t"
    and i1: "map row_id (tables (store w1) ''users'')
               = add_ids (record_ids ''users'' w) (map row_id (tables (store w) ''users''))"
    by (rule migrate_collection_run [OF user_row_builds s0 n(1), of "clock ''users''"])
  from n(2) have n2: "no_null ''products'' w1"
    by (simp add: files_cong(2) [OF d1])
  obtain l2 w2 where
    c2: "migrate_collection ''products'' product_row (clock ''products'') w1
           = ([Migrating ''products'', l2], w2)"
    and d2: "data_dir w2 = data_dir w1" and s2: "schedule (store w2) = []"
    and o2: "\<forall>t. t \<noteq> ''products'' \<longrightarrow> tables (store w2) t = tables (store w1) t"
    and i2: "map row_id (tables (store w2) ''products'')
               = add_ids (record_ids ''products'' w1) (map row_id (tables (store w1) ''products''))"
    by (rule migrate_collection_run [OF product_row_builds s1 n2, of "clock ''products''"])
  from n(3) have n3: "no_null ''courses'' w2"
    by (simp add: files_cong(2) [OF d2] files_cong(2) [OF d1])
  obtain l3 w3 where
    c3: "migrate_collection ''courses'' course_row (clock ''courses'') w2
           = ([Migrating ''courses'', l3], w3)"
    and d3: "data_dir w3 = data_dir w2" and s3: "schedule (store w3) = []"
    and o3: "\<forall>t. t \<noteq> ''courses'' \<longrightarrow> tables (store w3) t = tables (store w2) t"
    and i3: "map row_id (tables (store w3) ''courses'')
               = add_ids (record_ids ''courses'' w2) (map row_id (tables (store w2) ''courses''))"
    by (rule migrate_collection_run [OF course_row_builds s2 n3, of "clock ''courses''"])
  have r2: "record_ids ''products'' w1 = record_ids ''products'' w"
    and r3: "record_ids ''courses'' w2 = record_ids ''courses'' w"
    by (simp_all add: files_cong(3) [OF d2] files_cong(3) [OF d1])
  have "migrate clock w = (Inr (), [Starting] @ [Migrating ''users'', l1]
          @ [Migrating ''products'', l2] @ [Migrating ''courses'', l3] @ [Complete], w3)"
    using c1 c2 c3 by (simp add: migrate_def)
  moreover have "data_dir w3 = data_dir w" using d1 d2 d3 by simp
  moreover have "map row_id (tables (store w3) ''users'')
      = add_ids (record_ids ''users'' w) (map row_id (tables (store w) ''users''))"
    using i1 o2 o3 by simp
  moreover have "map row_id (tables (store w3) ''products'')
      = add_ids (record_ids ''products'' w) (map row_id (tables (store w) ''products''))"
    using i2 r2 o1 o3 by simp
  moreover have "map row_id (tables (store w3) ''courses'')
      = add_ids (record_ids ''courses'' w) (map row_id (tables (store w) ''courses''))"
    using i3 r3 o1 o2 by simp
  ultimately show ?thesis using s3 by simp
qed

lemma script_run:
  assumes "useSupabase cfg" "client createClient cfg = None" "migratable w"
    "script createClient cfg clock w = (ls, s, w')"
  shows "migratable w' \<and> data_dir w' = data_dir w
         \<and> map row_id (tables (store w') ''users'')
             = add_ids (record_ids ''users'' w) (map row_id (tables (store w) ''users''))
         \<and> map row_id (tables (store w') ''products'')
             = add_ids (record_ids ''products'' w) (map row_id (tables (store w) ''products''))
         \<and> map row_id (tables (store w') ''courses'')
             = add_ids (record_ids ''courses'' w) (map row_id (tables (store w) ''courses''))"
proof -
  from migrate_run [OF assms(3), of clock] obtain ls' w'' where
    m: "migrate clock w = (Inr (), ls', w'')" and d: "data_dir w'' = data_dir w"
    and s: "schedule (store w'') = []"
    and i: "map row_id (tables (store w'') ''users'')
              = add_ids (record_ids ''users'' w) (map row_id (tables (store w) ''users''))"
      "map row_id (tables (store w'') ''products'')
              = add_ids (record_ids ''products'' w) (map row_id (tables (store w) ''products''))"
      "map row_id (tables (store w'') ''courses'')
              = add_ids (record_ids ''courses'' w) (map row_id (tables (store w) ''courses''))"
    by blast
  from assms(1,2,4) m have w': "w' = w''" by (simp add: script_def)
  from assms(3) s have "migratable w''"
    by (simp add: migratable_def files_cong(2) [OF d])
  with d i w' show ?thesis by simp
qed

lemma twice:
  assumes "distinct start" "once = add_ids inputs start" "again = add_ids inputs once"
    "map row_id rows = again"
  shows "again = once \<and> distinct (map row_id rows)
         \<and> set again = set start \<union> set (filter (\<lambda>i. i \<noteq> JNull) inputs)
         \<and> (\<forall>i \<in> set (filter (\<lambda>i. i \<noteq> JNull) inputs). copies i rows = 1)"
proof -
  from assms(2,3) have same: "again = once" by (simp add: add_ids_twice)
  from assms(1,2) have d: "distinct once" by (simp add: distinct_add_ids)
  from assms(2) same have s: "set again = set start \<union> set (filter (\<lambda>i. i \<noteq> JNull) inputs)"
    by (auto simp: set_add_ids)
  have "copies i rows = 1" if "i \<in> set (filter (\<lambda>i. i \<noteq> JNull) inputs)" for i
  proof -
    from that s have "i \<in> set (map row_id rows)" by (simp add: assms(4))
    with d same assms(4) show ?thesis by (simp add: copies_one)
  qed
  with same d s assms(4) show ?thesis by simp
qed

lemma upsert_any:
  assumes "upsert tbl row r = (x, r')"
  shows "(\<forall>t. t \<noteq> tbl \<longrightarrow> tables r' t = tables r t)
         \<and> (distinct (map row_id (tables r tbl)) \<longrightarrow> distinct (map row_id (tables r' tbl)))"
proof -
  obtain out r1 where nx: "next_outcome r = (out, r1)" by (cases "next_outcome r") auto
  note same = next_outcome_tables [OF nx]
  show ?thesis
  proof (cases out)
    case Served
    with assms nx same show ?thesis
      by (auto simp: upsert_def put_table_def Let_def ids_upsert_rows split: if_splits)
  next
    case Refused
    with assms nx same show ?thesis by (auto simp: upsert_def)
  next
    case Rejected
    with assms nx same show ?thesis by (auto simp: upsert_def)
  qed
qed

lemma upsert_each_any:
  assumes "upsert_each tbl mk clk n xs r = (x, r')"
  shows "(\<forall>t. t \<noteq> tbl \<longrightarrow> tables r' t = tables r t)
         \<and> (distinct (map row_id (tables r tbl)) \<longrightarrow> distinct (map row_id (tables r' tbl)))"
  using assms
proof (induction xs arbitrary: n r)
  case Nil
  then show ?case by simp
next
  case (Cons y ys)
  show ?case
  proof (cases "mk (clk n) y")
    case (Inl e)
    with Cons.prems show ?thesis by simp
  next
    case (Inr row)
    obtain u r1 where up: "upsert tbl row r = (u, r1)" by (cases "upsert tbl row r") auto
    note first = upsert_any [OF up]
    show ?thesis
    proof (cases u)
      case (Inl e)
      with Cons.prems Inr up first show ?thesis by simp
    next
      case res: (Inr res)
      with Cons.prems Inr up have "upsert_each tbl mk clk (Suc n) ys r1 = (x, r')" by simp
      from Cons.IH [OF this] first show ?thesis by simp
    qed
  qed
qed

lemma migrate_collection_any:
  assumes "migrate_collection c mk clk w = (ls, w')"
  shows "data_dir w' = data_dir w
         \<and> (\<forall>t. t \<noteq> c \<longrightarrow> tables (store w') t = tables (store w) t)
         \<and> (keyed c w \<longrightarrow> keyed c w')"
proof (cases "readFileSync (c @ ''.json'') w")
  case (Inl e)
  with assms show ?thesis by (simp add: migrate_collection_def)
next
  case (Inr t)
  show ?thesis
  proof (cases "JSON_parse t")
    case (Inl e)
    with assms Inr show ?thesis by (simp add: migrate_collection_def)
  next
    case parsed: (Inr v)
    show ?thesis
    proof (cases "iterate v")
      case (Inl e)
      with assms Inr parsed show ?thesis by (simp add: migrate_collection_def)
    next
      case elems: (Inr xs)
      obtain x r where each: "upsert_each c mk clk 0 xs (store w) = (x, r)"
        by (cases "upsert_each c mk clk 0 xs (store w)") auto
      with assms Inr parsed elems have "w' = w\<lparr>store := r\<rparr>"
        by (cases x) (simp_all add: migrate_collection_def)
      with upsert_each_any [OF each] show ?thesis by (simp add: keyed_def)
    qed
  qed
qed

lemma script_any:
  assumes "keyed_tables w" "script createClient cfg clock w = (ls, s, w')"
  shows "keyed_tables w' \<and> data_dir w' = data_dir w"
proof (cases "useSupabase cfg \<and> client createClient cfg = None")
  case False
  with assms have "w' = w" by (auto simp: script_def split: option.splits if_splits)
  with assms(1) show ?thesis by simp
next
  case True
  obtain l1 w1 where c1: "migrate_collection ''users'' user_row (clock ''users'') w = (l1, w1)"
    by (cases "migrate_collection ''users'' user_row (clock ''users'') w") auto
  obtain l2 w2 where c2: "migrate_collection ''products'' product_row (clock ''products'') w1 = (l2, w2)"
    by (cases "migrate_collection ''products'' product_row (clock ''products'') w1") auto
  obtain l3 w3 where c3: "migrate_collection ''courses'' course_row (clock ''courses'') w2 = (l3, w3)"
    by (cases "migrate_collection ''courses'' course_row (clock ''courses'') w2") auto
  from True assms(2) c1 c2 c3 have w': "w' = w3"
    by (simp add: script_def migrate_def)
  note a1 = migrate_collection_any [OF c1] and a2 = migrate_collection_any [OF c2]
    and a3 = migrate_collection_any [OF c3]
  from assms(1) a1 have k1: "keyed ''users'' w1" "keyed ''products'' w1" "keyed ''courses'' w1"
    by (simp_all add: keyed_tables_def keyed_def)
  with a2 have k2: "keyed ''users'' w2" "keyed ''products'' w2" "keyed ''courses'' w2"
    by (simp_all add: keyed_def)
  with a3 have "keyed ''users'' w3" "keyed ''products'' w3" "keyed ''courses'' w3"
    by (simp_all add: keyed_def)
  with a1 a2 a3 w' show ?thesis by (simp add: keyed_tables_def)
qed

text \<open>
  C6, as amended. Whatever the configuration, the three files and the answers of the
  store: after two runs of the script on tables in which the primary key held, no
  table has two rows with the same identifier, and the files are as before.

  When the store is configured, \<open>createClient\<close> returns, the store serves every request
  and no element of the arrays of the three files is \<open>null\<close>: after the two runs the
  identifiers of each table are those it had before and the input identifiers of its
  file; each input identifier has exactly one row; and the second run has left the
  identifiers of the table as the first run left them.
\<close>

theorem migration_idempotent:
  assumes "keyed_tables w"
    and "script createClient cfg clock w = (ls, s, once)"
    and "script createClient cfg clock' once = (ls', s', twice)"
    and "c \<in> set [''users'', ''products'', ''courses'']"
  shows "distinct (map row_id (tables (store twice) c))
         \<and> data_dir twice = data_dir w
         \<and> (useSupabase cfg \<and> client createClient cfg = None \<and> migratable w
            \<longrightarrow> set (map row_id (tables (store twice) c))
                  = set (map row_id (tables (store w) c)) \<union> set (input_ids c w)
                \<and> (\<forall>i \<in> set (input_ids c w). copies i (tables (store twice) c) = 1)
                \<and> map row_id (tables (store twice) c) = map row_id (tables (store once) c))"
proof -
  note any1 = script_any [OF assms(1,2)]
  then have k1: "keyed_tables once" by simp
  note any2 = script_any [OF k1 assms(3)]
  from assms(4) consider "c = ''users''" | "c = ''products''" | "c = ''courses''" by auto
  then have no_dup: "distinct (map row_id (tables (store twice) c))"
    using any2 by cases (simp_all add: keyed_tables_def keyed_def)
  have files: "data_dir twice = data_dir w"
    using any1 any2 by simp
  have exact: "set (map row_id (tables (store twice) c))
                  = set (map row_id (tables (store w) c)) \<union> set (input_ids c w)
      \<and> (\<forall>i \<in> set (input_ids c w). copies i (tables (store twice) c) = 1)
      \<and> map row_id (tables (store twice) c) = map row_id (tables (store once) c)"
    if cfg: "useSupabase cfg" and made: "client createClient cfg = None" and mig: "migratable w"
  proof -
    note run1 = script_run [OF cfg made mig assms(2)]
    then have m1: "migratable once" and d1: "data_dir once = data_dir w" by simp_all
    note run2 = script_run [OF cfg made m1 assms(3)]
    have r: "record_ids c once = record_ids c w"
      by (simp add: files_cong(3) [OF d1])
    from assms(1) have k: "keyed ''users'' w" "keyed ''products'' w" "keyed ''courses'' w"
      by (simp_all add: keyed_tables_def)
    have start: "distinct (map row_id (tables (store w) c))"
      and first: "map row_id (tables (store once) c)
                    = add_ids (record_ids c w) (map row_id (tables (store w) c))"
      and second: "map row_id (tables (store twice) c)
                    = add_ids (record_ids c w) (map row_id (tables (store once) c))"
      using assms(4) k run1 run2 r
      by (auto simp: keyed_def files_cong(3) [OF d1])
    note both = twice [OF start first second refl, unfolded input_ids_elements]
    from both show ?thesis by blast
  qed
  from no_dup files exact show ?thesis by blast
qed


theorem migration_idempotent_witness:
  "keyed_tables two_users_served \<and> migratable two_users_served
   \<and> useSupabase remote_mode \<and> client accepts_http remote_mode = None
   \<and> input_ids ''users'' two_users_served = [JStr ''user-1'', JStr ''user-2'']
   \<and> set (map row_id
         (tables (store (snd (snd (script accepts_http remote_mode clock0
            (snd (snd (script accepts_http remote_mode clock0 two_users_served))))))) ''users''))
       = {JStr ''user-1'', JStr ''user-2''}
   \<and> copies (JStr ''user-1'')
         (tables (store (snd (snd (script accepts_http remote_mode clock0
            (snd (snd (script accepts_http remote_mode clock0 two_users_served))))))) ''users'') = 1
   \<and> copies (JStr ''user-2'')
         (tables (store (snd (snd (script accepts_http remote_mode clock0
            (snd (snd (script accepts_http remote_mode clock0 two_users_served))))))) ''users'') = 1
   \<and> distinct (map row_id
         (tables (store (snd (snd (script accepts_http remote_mode clock0
            (snd (snd (script accepts_http remote_mode clock0 two_users_served))))))) ''users''))
   \<and> data_dir (snd (snd (script accepts_http remote_mode clock0
            (snd (snd (script accepts_http remote_mode clock0 two_users_served))))))
       = data_dir two_users_served"
proof -
  have cfg: "useSupabase remote_mode" "client accepts_http remote_mode = None"
    by (simp_all add: remote_mode_def useSupabase_def present_def client_def accepts_http_def
        startsWith_def)
  have key: "keyed_tables two_users_served"
    by (simp add: keyed_tables_def keyed_def two_users_served_def healthy_def)
  have mig: "migratable two_users_served"
    by (simp add: migratable_def no_null_def file_records_def two_users_served_def two_users_def
        healthy_def)
  have inp: "input_ids ''users'' two_users_served = [JStr ''user-1'', JStr ''user-2'']"
    by (simp add: input_ids_def file_records_def two_users_served_def two_users_def row_id_def)
  have start: "tables (store two_users_served) ''users'' = []"
    by (simp add: two_users_served_def healthy_def)
  have col: "''users'' \<in> set [''users'', ''products'', ''courses'']"
    by simp
  have triple: "x = (fst x, fst (snd x), snd (snd x))" for x :: "line list \<times> nat \<times> world"
    by simp
  note runs = migration_idempotent [OF key triple triple col,
      of accepts_http remote_mode clock0 clock0]
  note exact = runs [THEN conjunct2, THEN conjunct2, rule_format,
      OF conjI [OF cfg(1) conjI [OF cfg(2) mig]]]
  from exact [THEN conjunct1]
  have ids: "set (map row_id
         (tables (store (snd (snd (script accepts_http remote_mode clock0
            (snd (snd (script accepts_http remote_mode clock0 two_users_served))))))) ''users''))
       = {JStr ''user-1'', JStr ''user-2''}"
    by (simp add: inp start insert_commute)
  from exact [THEN conjunct2, THEN conjunct1]
  have one: "copies (JStr ''user-1'')
         (tables (store (snd (snd (script accepts_http remote_mode clock0
            (snd (snd (script accepts_http remote_mode clock0 two_users_served))))))) ''users'') = 1"
    "copies (JStr ''user-2'')
         (tables (store (snd (snd (script accepts_http remote_mode clock0
            (snd (snd (script accepts_http remote_mode clock0 two_users_served))))))) ''users'') = 1"
    by (simp_all add: inp)
  from cfg key mig inp ids one runs [THEN conjunct1] runs [THEN conjunct2, THEN conjunct1]
  show ?thesis by blast
qed

text \<open>
  C6 as stated fails on a file with an element \<open>null\<close>. With \<open>users.json\<close> holding
  \<open>[user-1, null, user-3]\<close> and a store that serves every request, reading \<open>user.id\<close>
  of the second element throws, the loop ends there, and after two runs the table has
  no row for the input identifier \<open>user-3\<close>. It also fails when the store rejects the
  first request of each run, and when \<open>createClient\<close> throws on the configured URL:
  after two runs the table has no row for the input identifier \<open>user-1\<close>.
\<close>

theorem migration_idempotent_counterexample:
  "keyed_tables three_users \<and> useSupabase remote_mode \<and> client accepts_http remote_mode = None
   \<and> schedule (store three_users) = []
   \<and> JStr ''user-3'' \<in> set (input_ids ''users'' three_users)
   \<and> copies (JStr ''user-3'')
         (tables (store (snd (snd (script accepts_http remote_mode clock0
            (snd (snd (script accepts_http remote_mode clock0 three_users))))))) ''users'') = 0
   \<and> map row_id
         (tables (store (snd (snd (script accepts_http remote_mode clock0
            (snd (snd (script accepts_http remote_mode clock0 three_users))))))) ''users'')
       = [JStr ''user-1'']
   \<and> JStr ''user-1'' \<in> set (input_ids ''users'' rejecting_twice)
   \<and> copies (JStr ''user-1'')
         (tables (store (snd (snd (script accepts_http remote_mode clock0
            (snd (snd (script accepts_http remote_mode clock0 rejecting_twice))))))) ''users'') = 0
   \<and> useSupabase bad_url
   \<and> JStr ''user-1'' \<in> set (input_ids ''users'' two_users_served)
   \<and> script accepts_http bad_url clock0 two_users_served = ([], 1, two_users_served)
   \<and> copies (JStr ''user-1'')
         (tables (store (snd (snd (script accepts_http bad_url clock0
            (snd (snd (script accepts_http bad_url clock0 two_users_served))))))) ''users'') = 0"
  by (simp add: keyed_tables_def keyed_def three_users_def healthy_def remote_mode_def
      useSupabase_def present_def client_def accepts_http_def startsWith_def input_ids_def
      file_records_def row_id_def copies_def script_def migrate_def migrate_collection_def
      readFileSync_def user_row_def upsert_def upsert_rows_def put_table_def next_outcome_def
      js_or_def clock0_def rejecting_twice_def two_users_def two_users_served_def bad_url_def)


end
